theory Spec2Isabelle
  imports
    Complex_Main
    "HOL-Library.AList"
    "HOL-Library.Char_ord"
    "HOL-Library.List_Lexorder"
    "HOL-Library.Product_Lexorder"
begin

section \<open>Values, exceptions and files\<close>

text \<open>
  The two scripts of the repository, \<^verbatim>\<open>modular_scripts/bulk_processor.py\<close> and
  \<^verbatim>\<open>modular_scripts/analysis/anomaly_detector.py\<close>, talk to each other through two
  files of the data directory: the ledger \<^verbatim>\<open>master_ops_log.csv\<close> and the report
  \<^verbatim>\<open>anomalies_report.json\<close>. Both scripts are embedded as functions from the state of
  these files to their new state, together with what the script prints and returns.

  Amounts are double precision floats in the source. A number of the model is the exact
  rational value of a finite double, and every arithmetic step of the scripts rounds its
  exact result to the nearest double, as the processor does. Infinities, the sign of zero
  and results outside the exponent range of doubles are not part of the model. The NaN
  that pandas uses for a missing cell is the value \<open>NaN\<close> below.
\<close>

datatype py_exn =
    EmptyDataError
  | ParserError
  | OSError
  | KeyError string
  | TypeError
  | AttributeError
  | ValueError

datatype py_value = PyNone | PyInt int | PyStr string | PyTuple "py_value list"

text \<open>
  A cell of a DataFrame: missing (NaN, and NaT in a datetime column), a text, a number
  (after \<^verbatim>\<open>pd.to_numeric\<close>) or a point in time (after \<^verbatim>\<open>pd.to_datetime\<close>).
\<close>

datatype val = NaN | Str string | Num rat | Time int

type_synonym row = "(string \<times> val) list"

record dataframe =
  columns :: "string list"
  rows :: "row list"

text \<open>
  A file of comma-separated values is, when it exists and can be decoded, the list of its
  lines, each line the list of its fields. \<open>Unreadable\<close> is a file that exists and that
  \<^verbatim>\<open>pd.read_csv\<close> cannot open or decode. Every line of a file ends with a line break, as
  the lines that \<^verbatim>\<open>to_csv\<close> writes do, so that appended lines never join the last line.
\<close>

datatype file_state = Missing | Unreadable | Lines "string list list"

text \<open>
  What belongs to pandas and not to the scripts is a parameter of the model: which cell
  texts \<^verbatim>\<open>read_csv\<close> takes for a missing value, which texts \<^verbatim>\<open>to_numeric\<close> reads
  as a number and which texts \<^verbatim>\<open>to_datetime\<close> reads as a date, and the double that
  \<^verbatim>\<open>Series.mean()\<close> returns for a series of numbers (the order in which pandas adds
  them, and so the rounding of the sum, depends on its version and on the libraries it
  finds).
\<close>

record pandas =
  is_na :: "string \<Rightarrow> bool"
  number_of :: "string \<Rightarrow> rat option"
  date_of :: "string \<Rightarrow> int option"
  mean_of :: "rat list \<Rightarrow> rat"

section \<open>Double precision arithmetic\<close>

text \<open>
  An operation on doubles returns the double nearest to its exact result, and of two
  nearest doubles the one with the even significand. \<open>bits n\<close> is the position of the
  leading binary digit of \<open>n\<close>, \<open>exponent_of x\<close> the power of two at or below \<open>x\<close>; a
  double has 53 significant binary digits, so the doubles around \<open>x\<close> are the multiples of
  two to the power \<open>exponent_of x - 52\<close>.
\<close>

definition round_half_even :: "rat \<Rightarrow> int" where
  "round_half_even y =
     (let f = \<lfloor>y\<rfloor>; d = y - of_int f
      in if d < 1 / 2 then f
         else if 1 / 2 < d then f + 1
         else if even f then f else f + 1)"

function bits :: "nat \<Rightarrow> nat" where
  "bits n = (if n < 2 then 0 else Suc (bits (n div 2)))"
  by pat_completeness auto
termination
  by (relation "measure id") auto

declare bits.simps [simp del]

definition exponent_of :: "rat \<Rightarrow> int" where
  "exponent_of x =
     (if 1 \<le> x then int (bits (nat \<lfloor>x\<rfloor>))
      else (let k = bits (nat \<lfloor>1 / x\<rfloor>)
            in if x * 2 ^ k = 1 then - int k else - int k - 1))"

definition pow2 :: "int \<Rightarrow> rat" where
  "pow2 e = (if 0 \<le> e then 2 ^ nat e else 1 / 2 ^ nat (- e))"

definition double_of :: "rat \<Rightarrow> rat" where
  "double_of x =
     (if x = 0 then 0
      else (let u = pow2 (exponent_of \<bar>x\<bar> - 52)
            in sgn x * of_int (round_half_even (\<bar>x\<bar> / u)) * u))"

section \<open>The pandas operations the scripts call\<close>

definition cell_at :: "row \<Rightarrow> string \<Rightarrow> val" where
  "cell_at r c = (case map_of r c of Some v \<Rightarrow> v | None \<Rightarrow> NaN)"

definition pad_fields :: "nat \<Rightarrow> string list \<Rightarrow> string list" where
  "pad_fields n l = l @ replicate (n - length l) []"

definition read_cell :: "pandas \<Rightarrow> string \<Rightarrow> val" where
  "read_cell P t = (if is_na P t then NaN else Str t)"

text \<open>
  \<^verbatim>\<open>pd.read_csv(path)\<close>. A file without any line raises EmptyDataError. The first line
  is the header. When the first data line has more fields than the header, the leading
  surplus fields are the index and are not columns; a later line with more fields than
  that width raises ParserError, a line with fewer fields is filled with missing values.
\<close>

definition read_csv :: "pandas \<Rightarrow> file_state \<Rightarrow> py_exn + dataframe" where
  "read_csv P f =
     (case f of
        Missing \<Rightarrow> Inl OSError
      | Unreadable \<Rightarrow> Inl ParserError
      | Lines [] \<Rightarrow> Inl EmptyDataError
      | Lines (h # body) \<Rightarrow>
          (let lead = (case body of [] \<Rightarrow> 0 | l # _ \<Rightarrow> length l - length h);
               width = length h + lead
           in if list_ex (\<lambda>l. width < length l) body then Inl ParserError
              else Inr \<lparr>columns = h,
                        rows = map (\<lambda>l. zip h (map (read_cell P) (drop lead (pad_fields width l))))
                                 body\<rparr>))"

text \<open>\<^verbatim>\<open>pd.to_numeric(series, errors='coerce')\<close> on one cell.\<close>

fun to_numeric :: "pandas \<Rightarrow> val \<Rightarrow> val" where
  "to_numeric P (Str t) = (case number_of P t of Some x \<Rightarrow> Num x | None \<Rightarrow> NaN)"
| "to_numeric P (Num x) = Num x"
| "to_numeric P v = NaN"

text \<open>\<^verbatim>\<open>pd.to_datetime(series, errors='coerce')\<close> on one cell.\<close>

fun to_datetime :: "pandas \<Rightarrow> val \<Rightarrow> val" where
  "to_datetime P (Str t) = (case date_of P t of Some d \<Rightarrow> Time d | None \<Rightarrow> NaN)"
| "to_datetime P (Time d) = Time d"
| "to_datetime P v = NaN"

text \<open>\<^verbatim>\<open>df[c] = f(df[c])\<close>: KeyError when the column does not exist.\<close>

definition assign_column ::
  "string \<Rightarrow> (val \<Rightarrow> val) \<Rightarrow> dataframe \<Rightarrow> py_exn + dataframe" where
  "assign_column c f df =
     (if c \<in> set (columns df)
      then Inr (df\<lparr>rows := map (\<lambda>r. AList.update c (f (cell_at r c)) r) (rows df)\<rparr>)
      else Inl (KeyError c))"

text \<open>\<^verbatim>\<open>df.dropna(subset=cs)\<close>: KeyError when a column of the subset does not exist.\<close>

definition complete_in :: "string list \<Rightarrow> row \<Rightarrow> bool" where
  "complete_in cs r = list_all (\<lambda>c. cell_at r c \<noteq> NaN) cs"

definition dropna :: "string list \<Rightarrow> dataframe \<Rightarrow> py_exn + dataframe" where
  "dropna cs df =
     (case filter (\<lambda>c. c \<notin> set (columns df)) cs of
        [] \<Rightarrow> Inr (df\<lparr>rows := filter (complete_in cs) (rows df)\<rparr>)
      | c # _ \<Rightarrow> Inl (KeyError c))"

text \<open>
  \<^verbatim>\<open>df.duplicated(subset=cs, keep=False)\<close>: one pass over the rows with the keys met so
  far; a row is marked when its key was met before or comes again later.
\<close>

definition subset_key :: "string list \<Rightarrow> row \<Rightarrow> val list" where
  "subset_key cs r = map (cell_at r) cs"

fun duplicated_from :: "'k list \<Rightarrow> 'k list \<Rightarrow> bool list" where
  "duplicated_from seen [] = []"
| "duplicated_from seen (k # ks) =
     (k \<in> set seen \<or> k \<in> set ks) # duplicated_from (k # seen) ks"

definition duplicated :: "string list \<Rightarrow> row list \<Rightarrow> bool list" where
  "duplicated cs rs = duplicated_from [] (map (subset_key cs) rs)"

text \<open>\<^verbatim>\<open>df[mask]\<close>: the rows whose mark is set.\<close>

definition select_rows :: "bool list \<Rightarrow> row list \<Rightarrow> row list" where
  "select_rows marks rs = map snd (filter fst (zip marks rs))"

text \<open>
  \<^verbatim>\<open>df.sort_values(by=['vendor_name', 'date'])\<close>: a sort on several columns is a
  stable lexicographic sort; texts compare character by character, times by value, and
  a missing value comes after every value of its column.
\<close>

fun text_of :: "val \<Rightarrow> string" where
  "text_of (Str s) = s"
| "text_of v = []"

fun time_rank :: "val \<Rightarrow> bool \<times> int" where
  "time_rank (Time d) = (False, d)"
| "time_rank v = (True, 0)"

definition sort_rank :: "row \<Rightarrow> (bool \<times> string) \<times> (bool \<times> int)" where
  "sort_rank r =
     ((cell_at r ''vendor_name'' = NaN, text_of (cell_at r ''vendor_name'')),
      time_rank (cell_at r ''date''))"

definition sort_values :: "row list \<Rightarrow> row list" where
  "sort_values rs = sort_key sort_rank rs"

text \<open>
  \<^verbatim>\<open>df.groupby(c)\<close>, iterated: one group for each value of the column, the values in
  ascending order, each group holding its rows in the order of the frame. Rows with a
  missing value in the column belong to no group.
\<close>

definition group_keys :: "string \<Rightarrow> row list \<Rightarrow> val list" where
  "group_keys c rs =
     sort_key text_of (remdups (filter (\<lambda>v. v \<noteq> NaN) (map (\<lambda>r. cell_at r c) rs)))"

definition groupby :: "string \<Rightarrow> row list \<Rightarrow> (val \<times> row list) list" where
  "groupby c rs = map (\<lambda>v. (v, filter (\<lambda>r. cell_at r c = v) rs)) (group_keys c rs)"

text \<open>\<^verbatim>\<open>series.mean()\<close> skips missing values; the mean of no number is NaN.\<close>

fun numbers_of :: "val list \<Rightarrow> rat list" where
  "numbers_of [] = []"
| "numbers_of (Num x # vs) = x # numbers_of vs"
| "numbers_of (v # vs) = numbers_of vs"

definition mean :: "pandas \<Rightarrow> val list \<Rightarrow> val" where
  "mean P vs =
     (case numbers_of vs of
        [] \<Rightarrow> NaN
      | x # xs \<Rightarrow> Num (mean_of P (x # xs)))"

text \<open>
  Float multiplication and comparison: the product is rounded to a double, NaN times
  anything is NaN, and NaN compares false.
\<close>

fun times :: "val \<Rightarrow> rat \<Rightarrow> val" where
  "times (Num x) y = Num (double_of (x * y))"
| "times v y = NaN"

fun greater :: "val \<Rightarrow> val \<Rightarrow> bool" where
  "greater (Num x) (Num y) = (y < x)"
| "greater v w = False"

text \<open>
  \<^verbatim>\<open>pd.concat(frames, ignore_index=True)\<close>: the columns are those of the frames in
  the order in which they first occur, and a row has NaN where its frame has no such
  column. A frame is given by its rows and is never empty where the script calls this.
\<close>

definition ordered_union :: "'a list \<Rightarrow> 'a list" where
  "ordered_union xs = rev (remdups (rev xs))"

definition reindex :: "string list \<Rightarrow> row \<Rightarrow> row" where
  "reindex cs r = map (\<lambda>c. (c, cell_at r c)) cs"

definition frame_columns :: "row list \<Rightarrow> string list" where
  "frame_columns f = (case f of [] \<Rightarrow> [] | r # _ \<Rightarrow> map fst r)"

definition concat_frames :: "row list list \<Rightarrow> row list" where
  "concat_frames fs =
     map (reindex (ordered_union (concat (map frame_columns fs)))) (concat fs)"

section \<open>Number formatting\<close>

text \<open>
  \<^verbatim>\<open>f"{x:.2f}"\<close> and \<^verbatim>\<open>f"{x:.0%}"\<close>: the value is rounded to the given number of
  decimals, a tie going to the even neighbour, and written with its sign, its integer
  digits and, when there are decimals, a point and exactly that many digits. The percent
  format first multiplies the double by 100, which rounds to a double.
\<close>

definition is_digit :: "char \<Rightarrow> bool" where
  "is_digit c = (let n = (of_char c :: nat) in 48 \<le> n \<and> n \<le> 57)"

definition digit_char :: "nat \<Rightarrow> char" where
  "digit_char d = ''0123456789'' ! d"

function digits_of :: "nat \<Rightarrow> string" where
  "digits_of n =
     (if n < 10 then [digit_char n]
      else digits_of (n div 10) @ [digit_char (n mod 10)])"
  by pat_completeness auto
termination
  by (relation "measure id") auto

declare digits_of.simps [simp del]

definition fixed :: "nat \<Rightarrow> rat \<Rightarrow> string" where
  "fixed k x =
     (let q = nat (round_half_even (\<bar>x\<bar> * 10 ^ k));
          whole = digits_of (q div 10 ^ k);
          frac = digits_of (q mod 10 ^ k)
      in (if x < 0 then ''-'' else []) @ whole @
         (if k = 0 then [] else ''.'' @ replicate (k - length frac) (CHR ''0'') @ frac))"

fun format_2f :: "val \<Rightarrow> string" where
  "format_2f (Num x) = fixed 2 x"
| "format_2f v = ''nan''"

definition format_percent :: "rat \<Rightarrow> string" where
  "format_percent x = fixed 0 (double_of (x * 100)) @ ''%''"

section \<open>The anomaly detector\<close>

text \<open>What the two scripts print, one constructor for each \<^verbatim>\<open>print\<close> of the source.\<close>

datatype event =
    Starting_detection
  | Log_not_found
  | Log_is_empty
  | Cannot_read_log py_exn
  | Found_duplicates nat
  | Found_spikes nat
  | No_anomalies
  | Summary string
  | Anomaly_details "row list"
  | Report_saved
  | Starting_bulk
  | Api_key_not_found
  | Found_processed nat
  | Processing string
  | No_text_warning string
  | Gemini_error string "string option"
  | Staged string
  | Critical_error string py_exn
  | Found_new nat
  | Appended
  | No_new_files
  | Bulk_complete

text \<open>
  The data directory: the names of its entries, the ledger \<^verbatim>\<open>LOG_FILE\<close> and the
  report \<^verbatim>\<open>REPORT_FILE\<close>, which is absent or holds a list of records.
\<close>

record data_dir =
  listing :: "string list"
  log_file :: file_state
  report_file :: "row list option"

record run =
  returned :: py_value
  after :: data_dir
  printed :: "event list"

text \<open>Lines 83 to 87: read the ledger, coerce the amounts, drop the incomplete rows.\<close>

definition clean_ledger :: "pandas \<Rightarrow> dataframe \<Rightarrow> py_exn + dataframe" where
  "clean_ledger P df =
     (case assign_column ''total_amount'' (to_numeric P) df of
        Inl e \<Rightarrow> Inl e
      | Inr df1 \<Rightarrow> dropna [''total_amount'', ''vendor_name''] df1)"

definition load_ledger :: "pandas \<Rightarrow> file_state \<Rightarrow> py_exn + dataframe" where
  "load_ledger P f =
     (case read_csv P f of
        Inl e \<Rightarrow> Inl e
      | Inr df \<Rightarrow> clean_ledger P df)"

text \<open>Lines 97 to 102: the rows of the duplicate pass, each with its anomaly type.\<close>

definition find_duplicates :: "row list \<Rightarrow> row list" where
  "find_duplicates rs =
     map (AList.update ''anomaly_type'' (Str ''Potential Duplicate Billing''))
       (select_rows (duplicated [''vendor_name'', ''total_amount''] rs) rs)"

text \<open>Lines 106 to 108: with a date column, the dates are parsed and the frame is sorted.\<close>

definition order_by_date :: "pandas \<Rightarrow> dataframe \<Rightarrow> row list" where
  "order_by_date P df =
     (case assign_column ''date'' (to_datetime P) df of
        Inr df1 \<Rightarrow> sort_values (rows df1)
      | Inl e \<Rightarrow> rows df)"

text \<open>
  Lines 110 to 119: the body of the loop over the vendors, for one group. The sum
  \<^verbatim>\<open>1 + spike_threshold\<close> and the product with the mean are rounded to doubles.
\<close>

definition spike_entry :: "rat \<Rightarrow> row \<Rightarrow> val \<Rightarrow> row" where
  "spike_entry spike_threshold latest_entry avg_cost =
     AList.update ''details''
       (Str (''Amount '' @ format_2f (cell_at latest_entry ''total_amount'') @
             '' vs. Avg '' @ format_2f avg_cost))
       (AList.update ''anomaly_type''
          (Str (''Price Spike (>'' @ format_percent spike_threshold @ '')''))
          latest_entry)"

definition spike_of_group :: "pandas \<Rightarrow> rat \<Rightarrow> row list \<Rightarrow> row list" where
  "spike_of_group P spike_threshold g =
     (if 1 < length g
      then (let avg_cost = mean P (map (\<lambda>r. cell_at r ''total_amount'') (butlast g));
                latest_entry = last g
            in if greater (cell_at latest_entry ''total_amount'')
                    (times avg_cost (double_of (1 + spike_threshold)))
               then [spike_entry spike_threshold latest_entry avg_cost]
               else [])
      else [])"

definition find_spikes :: "pandas \<Rightarrow> rat \<Rightarrow> row list \<Rightarrow> row list" where
  "find_spikes P spike_threshold rs =
     concat (map (\<lambda>(vendor, g). spike_of_group P spike_threshold g) (groupby ''vendor_name'' rs))"

text \<open>
  \<^verbatim>\<open>detect_financial_anomalies\<close>. The summary of \<^verbatim>\<open>get_insights_from_gemini\<close> is a
  text in every case and is only printed; it is the parameter \<open>insights\<close>. Every
  exception of the reading block is caught, so the function has no raising branch.
\<close>

definition analyse :: "pandas \<Rightarrow> rat \<Rightarrow> dataframe \<Rightarrow> row list list \<times> event list" where
  "analyse P spike_threshold df =
     (let duplicates = find_duplicates (rows df);
          found1 = (if duplicates \<noteq> [] then [duplicates] else []);
          out1 = (if duplicates \<noteq> [] then [Found_duplicates (length duplicates)] else []);
          sorted_rows = (if ''date'' \<in> set (columns df) then order_by_date P df else rows df);
          spikes = find_spikes P spike_threshold sorted_rows;
          found2 = (if spikes \<noteq> [] then [spikes] else []);
          out2 = (if spikes \<noteq> [] then [Found_spikes (length spikes)] else [])
      in (found1 @ found2, out1 @ out2))"

definition detect_financial_anomalies ::
  "pandas \<Rightarrow> (row list \<Rightarrow> string) \<Rightarrow> rat \<Rightarrow> data_dir \<Rightarrow> run" where
  "detect_financial_anomalies P insights spike_threshold d =
     (if log_file d = Missing
      then \<lparr>returned = PyNone, after = d, printed = [Starting_detection, Log_not_found]\<rparr>
      else
        (case load_ledger P (log_file d) of
           Inl EmptyDataError \<Rightarrow>
             \<lparr>returned = PyNone, after = d, printed = [Starting_detection, Log_is_empty]\<rparr>
         | Inl e \<Rightarrow>
             \<lparr>returned = PyNone, after = d, printed = [Starting_detection, Cannot_read_log e]\<rparr>
         | Inr df \<Rightarrow>
             (case analyse P spike_threshold df of
                (all_anomalies, out) \<Rightarrow>
                  if all_anomalies = []
                  then \<lparr>returned = PyNone, after = d,
                        printed = Starting_detection # out @ [No_anomalies]\<rparr>
                  else
                    (let final_anomalies = concat_frames all_anomalies
                     in \<lparr>returned = PyNone,
                         after = d\<lparr>report_file := Some final_anomalies\<rparr>,
                         printed = Starting_detection # out @
                           [Summary (insights final_anomalies),
                            Anomaly_details final_anomalies, Report_saved]\<rparr>))))"

section \<open>The extraction engine\<close>

text \<open>
  The value \<^verbatim>\<open>json.loads\<close> returns: an object, given by its keys and the text that
  \<^verbatim>\<open>to_csv\<close> writes for each value; a list or a string, with the answer of
  \<^verbatim>\<open>'error' in value\<close>; or a number, a truth value or null.
\<close>

datatype json = JObject "(string \<times> string) list" | JSeq bool | JScalar

text \<open>
  What the model call inside \<^verbatim>\<open>analyze_with_gemini\<close> does with a prompt: the call
  raises; the call returns and reading \<^verbatim>\<open>response.text\<close> raises; the text is not
  JSON after the code fences are removed; or the text parses to a value.
\<close>

datatype gemini_answer = Call_failed | Text_unavailable | Not_json | Parsed json

definition failed_to_parse :: json where
  "failed_to_parse = JObject [(''error'', ''Failed to parse JSON from Gemini response.'')]"

text \<open>
  \<^verbatim>\<open>analyze_with_gemini\<close>: the handler returns the error object. When
  \<^verbatim>\<open>response.text\<close> raises, the handler reads it again for its message and the
  exception leaves the function.
\<close>

definition analyze_with_gemini :: "(string \<Rightarrow> gemini_answer) \<Rightarrow> string \<Rightarrow> py_exn + json" where
  "analyze_with_gemini gemini raw_text =
     (case gemini raw_text of
        Call_failed \<Rightarrow> Inr failed_to_parse
      | Text_unavailable \<Rightarrow> Inl ValueError
      | Not_json \<Rightarrow> Inr failed_to_parse
      | Parsed v \<Rightarrow> Inr v)"

section \<open>The bulk processor\<close>

text \<open>
  What the bulk processor finds outside the data directory: the key in the Streamlit
  secrets (\<open>None\<close> also when Streamlit or the lookup raises), the key in the
  environment, the text extraction of PyMuPDF for a file name, the model, and pandas.
\<close>

record env =
  secrets_key :: "string option"
  getenv_key :: "string option"
  extract_text_from_pdf :: "string \<Rightarrow> py_exn + string"
  gemini :: "string \<Rightarrow> gemini_answer"
  pd :: pandas

text \<open>\<^verbatim>\<open>not api_key\<close>: the key is None or the empty text.\<close>

definition falsy :: "string option \<Rightarrow> bool" where
  "falsy k = (k = None \<or> k = Some [])"

definition api_key :: "env \<Rightarrow> string option" where
  "api_key E = (if falsy (secrets_key E) then getenv_key E else secrets_key E)"

text \<open>
  \<^verbatim>\<open>get_processed_files\<close>: only EmptyDataError is caught; any other exception of
  \<^verbatim>\<open>read_csv\<close> leaves the function.
\<close>

definition get_processed_files :: "pandas \<Rightarrow> file_state \<Rightarrow> py_exn + val set" where
  "get_processed_files P f =
     (if f = Missing then Inr {}
      else (case read_csv P f of
              Inl EmptyDataError \<Rightarrow> Inr {}
            | Inl e \<Rightarrow> Inl e
            | Inr df \<Rightarrow>
                if ''source_file'' \<in> set (columns df)
                then Inr (set (map (\<lambda>r. cell_at r ''source_file'') (rows df)))
                else Inr {}))"

text \<open>
  \<^verbatim>\<open>glob.glob(os.path.join(DATA_DIR, '*.pdf'))\<close> and \<^verbatim>\<open>os.path.basename\<close>: the
  names of the directory that end in \<^verbatim>\<open>.pdf\<close> and do not start with a dot.
\<close>

definition is_pdf_name :: "string \<Rightarrow> bool" where
  "is_pdf_name n =
     (4 \<le> length n \<and> drop (length n - 4) n = ''.pdf'' \<and> hd n \<noteq> CHR ''.'')"

definition glob_pdf :: "string list \<Rightarrow> string list" where
  "glob_pdf names = filter is_pdf_name names"

text \<open>\<^verbatim>\<open>not raw_text or not raw_text.strip()\<close>: the text has only white space.\<close>

definition is_space :: "char \<Rightarrow> bool" where
  "is_space c =
     (let n = (of_char c :: nat)
      in (9 \<le> n \<and> n \<le> 13) \<or> (28 \<le> n \<and> n \<le> 32) \<or> n = 133 \<or> n = 160)"

definition blank :: "string \<Rightarrow> bool" where
  "blank t = list_all is_space t"

text \<open>
  Lines 73 to 96, the body of the loop for a file that is not skipped: the result is the
  record to stage, if any, and what is printed after the line that announces the file.
  An exception inside the block is caught and printed.
\<close>

definition try_file :: "env \<Rightarrow> string \<Rightarrow> (string \<times> string) list option \<times> event list" where
  "try_file E filename =
     (case extract_text_from_pdf E filename of
        Inl e \<Rightarrow> (None, [Critical_error filename e])
      | Inr raw_text \<Rightarrow>
          if blank raw_text then (None, [No_text_warning filename])
          else
            (case analyze_with_gemini (gemini E) raw_text of
               Inl e \<Rightarrow> (None, [Critical_error filename e])
             | Inr (JObject structured_data) \<Rightarrow>
                 if ''error'' \<in> set (map fst structured_data)
                 then (None, [Gemini_error filename (map_of structured_data ''error'')])
                 else (Some (AList.update ''source_file'' filename structured_data),
                       [Staged filename])
             | Inr (JSeq has_error) \<Rightarrow>
                 (None, [Critical_error filename (if has_error then AttributeError else TypeError)])
             | Inr JScalar \<Rightarrow> (None, [Critical_error filename TypeError])))"

text \<open>Lines 65 to 96: the loop, with the staged records and the printed lines so far.\<close>

fun main_loop ::
  "env \<Rightarrow> val set \<Rightarrow> string list \<Rightarrow> (string \<times> string) list list \<times> event list \<Rightarrow>
   (string \<times> string) list list \<times> event list" where
  "main_loop E processed_files [] st = st"
| "main_loop E processed_files (filename # pdf_files) (new_records, out) =
     (if Str filename \<in> processed_files
      then main_loop E processed_files pdf_files (new_records, out)
      else (case try_file E filename of
              (staged, said) \<Rightarrow>
                main_loop E processed_files pdf_files
                  (new_records @ (case staged of None \<Rightarrow> [] | Some r \<Rightarrow> [r]),
                   out @ Processing filename # said)))"

text \<open>
  Lines 98 to 111: \<^verbatim>\<open>pd.DataFrame(new_records)\<close> has the keys of the records as columns,
  in the order in which they first occur; \<^verbatim>\<open>source_file\<close> is moved to the front; a
  record without a key has an empty field in that column. The rows are written after the
  lines of the file, with the header before them only when the file does not exist.
\<close>

definition new_columns :: "(string \<times> string) list list \<Rightarrow> string list" where
  "new_columns new_records =
     ''source_file'' #
     filter (\<lambda>col. col \<noteq> ''source_file'') (ordered_union (concat (map (map fst) new_records)))"

definition csv_line :: "string list \<Rightarrow> (string \<times> string) list \<Rightarrow> string list" where
  "csv_line cols r = map (\<lambda>c. case map_of r c of Some t \<Rightarrow> t | None \<Rightarrow> []) cols"

definition to_csv_append :: "(string \<times> string) list list \<Rightarrow> file_state \<Rightarrow> file_state" where
  "to_csv_append new_records f =
     (let cols = new_columns new_records;
          body = map (csv_line cols) new_records
      in case f of
           Missing \<Rightarrow> Lines (cols # body)
         | Unreadable \<Rightarrow> Unreadable
         | Lines ls \<Rightarrow> Lines (ls @ body))"


text \<open>
  \<^verbatim>\<open>bulk_process_invoices\<close>. Every \<^verbatim>\<open>return\<close> of the function is without a value.
  The function raises where \<^verbatim>\<open>get_processed_files\<close> raises.
\<close>

definition bulk_process_invoices :: "env \<Rightarrow> data_dir \<Rightarrow> py_exn + run" where
  "bulk_process_invoices E d =
     (if falsy (api_key E)
      then Inr \<lparr>returned = PyNone, after = d, printed = [Starting_bulk, Api_key_not_found]\<rparr>
      else
        (case get_processed_files (pd E) (log_file d) of
           Inl e \<Rightarrow> Inl e
         | Inr processed_files \<Rightarrow>
             (case main_loop E processed_files (glob_pdf (listing d))
                     ([], [Starting_bulk, Found_processed (card processed_files)]) of
                (new_records, out) \<Rightarrow>
                  if new_records \<noteq> []
                  then Inr \<lparr>returned = PyNone,
                            after = d\<lparr>log_file := to_csv_append new_records (log_file d)\<rparr>,
                            printed = out @ [Found_new (length new_records), Appended,
                                             Bulk_complete]\<rparr>
                  else Inr \<lparr>returned = PyNone, after = d,
                            printed = out @ [No_new_files, Bulk_complete]\<rparr>)))"

section \<open>A small reading of texts, for concrete ledgers\<close>

text \<open>
  For the concrete ledgers below: the empty text is a missing value, a text of decimal
  digits is the double nearest to its number, a text of digits and hyphens (a date
  written year, month, day) is the time given by its digits, and the mean adds the
  numbers from left to right.
\<close>

definition natural_of :: "string \<Rightarrow> nat option" where
  "natural_of t =
     (if t \<noteq> [] \<and> list_all is_digit t
      then Some (foldl (\<lambda>n c. 10 * n + (of_char c - 48)) 0 t)
      else None)"

definition plain :: pandas where
  "plain =
     \<lparr>is_na = (\<lambda>t. t = []),
      number_of = (\<lambda>t. map_option (\<lambda>n. double_of (of_nat n)) (natural_of t)),
      date_of = (\<lambda>t. map_option int (natural_of (filter (\<lambda>c. c \<noteq> CHR ''-'') t))),
      mean_of = (\<lambda>xs. double_of (foldl (\<lambda>s x. double_of (s + x)) 0 xs / of_nat (length xs)))\<rparr>"

text \<open>The threshold \<^verbatim>\<open>0.20\<close> of the source is the double nearest to one fifth.\<close>

definition default_threshold :: rat where
  "default_threshold = double_of (1 / 5)"

text \<open>The amounts 3.6, 0.09 and 0.108 of a ledger, as the doubles nearest to them.\<close>

definition amount_3_6 :: rat where
  "amount_3_6 = double_of (36 / 10)"

definition amount_0_09 :: rat where
  "amount_0_09 = double_of (9 / 100)"

definition amount_0_108 :: rat where
  "amount_0_108 = double_of (108 / 1000)"

text \<open>The ledger of three invoices of one vendor, as a file and as its cleaned rows.\<close>

definition invoice_row :: "string \<Rightarrow> string \<Rightarrow> rat \<Rightarrow> row" where
  "invoice_row f v x = [(''source_file'', Str f), (''vendor_name'', Str v), (''total_amount'', Num x)]"

definition three_invoices :: "string \<Rightarrow> file_state" where
  "three_invoices third =
     Lines [[''source_file'', ''vendor_name'', ''total_amount''],
            [''a.pdf'', ''V'', ''100''],
            [''b.pdf'', ''V'', ''100''],
            [''c.pdf'', ''V'', third]]"

definition amount_rows :: "rat \<Rightarrow> rat \<Rightarrow> rat \<Rightarrow> row list" where
  "amount_rows x y z = [invoice_row ''a.pdf'' ''V'' x, invoice_row ''b.pdf'' ''V'' y,
                        invoice_row ''c.pdf'' ''V'' z]"

definition three_rows :: "rat \<Rightarrow> row list" where
  "three_rows x = amount_rows 100 100 x"

text \<open>
  How two rows stand in a frame sorted by date: a dated row before a row of the same or a
  later date, and every dated row before every row without a date.
\<close>

definition date_before :: "row \<Rightarrow> row \<Rightarrow> bool" where
  "date_before r s =
     (case cell_at r ''date'' of
        Time a \<Rightarrow> (case cell_at s ''date'' of Time b \<Rightarrow> a \<le> b | _ \<Rightarrow> True)
      | _ \<Rightarrow> (case cell_at s ''date'' of Time b \<Rightarrow> False | _ \<Rightarrow> True))"

text \<open>A frame of four invoices of one vendor, two of them without a readable date.\<close>

definition dated_row :: "string \<Rightarrow> string \<Rightarrow> val \<Rightarrow> row" where
  "dated_row f v d = [(''source_file'', Str f), (''vendor_name'', Str v), (''date'', d)]"

definition four_dates :: dataframe where
  "four_dates =
     \<lparr>columns = [''source_file'', ''vendor_name'', ''date''],
      rows = [dated_row ''a.pdf'' ''V'' (Str ''2024-03-01''),
              dated_row ''b.pdf'' ''V'' NaN,
              dated_row ''c.pdf'' ''V'' (Str ''2024-01-01''),
              dated_row ''d.pdf'' ''V'' (Str ''soon'')]\<rparr>"

text \<open>
  A ledger with a row whose amount is not a number and a row without a vendor, and the
  same ledger without these two rows.
\<close>

definition ledger_header :: "string list" where
  "ledger_header = [''source_file'', ''vendor_name'', ''total_amount'']"

definition messy_dir :: data_dir where
  "messy_dir =
     \<lparr>listing = [],
      log_file = Lines [ledger_header,
                        [''a.pdf'', ''V'', ''100''],
                        [''b.pdf'', ''V'', ''abc''],
                        [''c.pdf'', [], ''100''],
                        [''d.pdf'', ''V'', ''100'']],
      report_file = None\<rparr>"

definition tidy_dir :: data_dir where
  "tidy_dir =
     \<lparr>listing = [],
      log_file = Lines [ledger_header,
                        [''a.pdf'', ''V'', ''100''],
                        [''d.pdf'', ''V'', ''100'']],
      report_file = None\<rparr>"

text \<open>
  A data directory with a report of an earlier run and a ledger whose only row has no
  numeric amount.
\<close>

definition stale_dir :: data_dir where
  "stale_dir =
     \<lparr>listing = [],
      log_file = Lines [ledger_header, [''a.pdf'', ''V'', ''abc'']],
      report_file = Some [invoice_row ''x.pdf'' ''W'' 500]\<rparr>"

definition three_dir :: data_dir where
  "three_dir = \<lparr>listing = [], log_file = three_invoices ''200'', report_file = None\<rparr>"

definition no_insights :: "row list \<Rightarrow> string" where
  "no_insights anomalies = []"

text \<open>
  An inbox for the bulk processor: one file that cannot be opened, one without text, one
  whose text the model does not turn into JSON, one good invoice, and a file that is not
  a PDF. The key is in the environment.
\<close>

definition acme :: json where
  "acme = JObject [(''vendor_name'', ''Acme''), (''total_amount'', ''100'')]"

definition office :: env where
  "office =
     \<lparr>secrets_key = None,
      getenv_key = Some ''key'',
      extract_text_from_pdf =
        (\<lambda>f. if f = ''a.pdf'' then Inr ''Invoice Acme 100''
             else if f = ''b.pdf'' then Inr ''  ''
             else if f = ''d.pdf'' then Inr ''garbled''
             else Inl OSError),
      gemini = (\<lambda>t. if t = ''Invoice Acme 100'' then Parsed acme else Not_json),
      pd = plain\<rparr>"

definition office_without_key :: env where
  "office_without_key = office\<lparr>getenv_key := None\<rparr>"

definition inbox :: data_dir where
  "inbox =
     \<lparr>listing = [''c.pdf'', ''b.pdf'', ''d.pdf'', ''a.pdf'', ''notes.txt''],
      log_file = Missing,
      report_file = None\<rparr>"

definition acme_line :: "string list" where
  "acme_line = [''a.pdf'', ''Acme'', ''100'']"

definition failures_printed :: "event list" where
  "failures_printed =
     [Processing ''c.pdf'', Critical_error ''c.pdf'' OSError,
      Processing ''b.pdf'', No_text_warning ''b.pdf'',
      Processing ''d.pdf'',
      Gemini_error ''d.pdf'' (Some ''Failed to parse JSON from Gemini response.'')]"


definition foreign_header :: "string list" where
  "foreign_header = [''vendor_name'', ''total_amount'', ''date'']"

definition inbox_foreign_ledger :: data_dir where
  "inbox_foreign_ledger = inbox\<lparr>log_file := Lines [foreign_header]\<rparr>"

section \<open>Evaluating double arithmetic\<close>

lemma floor_quotient: "\<lfloor>numeral a / numeral b :: rat\<rfloor> = numeral a div numeral b"
  by (metis floor_divide_of_int_eq of_int_numeral)

lemmas double_eval =
  double_of_def exponent_of_def pow2_def round_half_even_def bits.simps Let_def floor_quotient

lemmas fixed_eval = fixed_def round_half_even_def digits_of.simps digit_char_def Let_def

lemma default_threshold_value: "default_threshold = 3602879701896397 / 18014398509481984"
  by (simp add: default_threshold_def double_eval)

lemma one_plus_default:
  "double_of (1 + default_threshold) = 5404319552844595 / 4503599627370496"
  by (simp add: default_threshold_value double_eval)

lemma double_100: "double_of 100 = 100"
  by (simp add: double_eval)

lemma double_200: "double_of 200 = 200"
  by (simp add: double_eval)

lemma amount_3_6_value: "amount_3_6 = 8106479329266893 / 2251799813685248"
  by (simp add: amount_3_6_def double_eval)

lemma amount_0_09_value: "amount_0_09 = 3242591731706757 / 36028797018963968"
  by (simp add: amount_0_09_def double_eval)

lemma amount_0_108_value: "amount_0_108 = 7782220156096217 / 72057594037927936"
  by (simp add: amount_0_108_def double_eval)

lemma limit_100: "double_of (100 * double_of (1 + default_threshold)) = 120"
  unfolding one_plus_default by (simp add: double_eval)

lemma limit_3:
  "double_of (3 * double_of (1 + default_threshold)) = 2026619832316723 / 562949953421312"
  unfolding one_plus_default by (simp add: double_eval)

lemma limit_0_09:
  "double_of (amount_0_09 * double_of (1 + default_threshold)) =
     7782220156096217 / 72057594037927936"
  unfolding one_plus_default amount_0_09_value by (simp add: double_eval)

lemma mean_plain_100: "mean_of plain [100, 100] = 100"
  by (simp add: plain_def double_eval)

lemma mean_plain_one: "mean_of plain [100] = 100"
  by (simp add: plain_def double_eval)

lemma mean_plain_3: "mean_of plain [3, 3] = 3"
  by (simp add: plain_def double_eval)

lemma mean_plain_0_09: "mean_of plain [amount_0_09, amount_0_09] = amount_0_09"
  unfolding amount_0_09_value by (simp add: plain_def double_eval)

lemma percent_default: "format_percent default_threshold = ''20%''"
  unfolding format_percent_def default_threshold_value
  by (simp add: double_eval fixed_def digits_of.simps digit_char_def)

section \<open>Cells, rows and the reading of a ledger\<close>

lemma cell_at_update: "cell_at (AList.update k v r) c = (if c = k then v else cell_at r c)"
  by (simp add: cell_at_def update_conv')

lemmas reading_defs =
  load_ledger_def clean_ledger_def read_csv_def plain_def assign_column_def dropna_def natural_of_def
  is_digit_def cell_at_def complete_in_def read_cell_def pad_fields_def double_100 double_200

lemma load_three_invoices:
  "load_ledger plain (three_invoices ''200'') =
     Inr \<lparr>columns = [''source_file'', ''vendor_name'', ''total_amount''],
          rows = three_rows 200\<rparr>"
  by (simp add: three_invoices_def three_rows_def amount_rows_def invoice_row_def reading_defs)

section \<open>Duplicate detection\<close>

text \<open>
  The pass over the keys marks a row exactly when its key is among the keys met before the
  pass or occurs at least twice in the rows of the pass.
\<close>

lemma select_duplicated_from:
  "select_rows (duplicated_from seen (map key rs)) rs =
     filter (\<lambda>r. key r \<in> set seen \<or> 2 \<le> length (filter (\<lambda>r'. key r' = key r) rs)) rs"
proof (induction rs arbitrary: seen)
  case Nil
  show ?case by (simp add: select_rows_def)
next
  case (Cons r rs)
  have head: "(key r \<in> set seen \<or> key r \<in> set (map key rs)) =
        (key r \<in> set seen \<or> 2 \<le> length (filter (\<lambda>r'. key r' = key r) (r # rs)))"
  proof -
    have "(key r \<in> set (map key rs)) = (filter (\<lambda>r'. key r' = key r) rs \<noteq> [])"
      by (simp add: filter_empty_conv image_iff) metis
    then show ?thesis by (cases "filter (\<lambda>r'. key r' = key r) rs") auto
  qed
  have tail:
    "filter (\<lambda>x. key x \<in> set (key r # seen) \<or> 2 \<le> length (filter (\<lambda>r'. key r' = key x) rs)) rs =
     filter (\<lambda>x. key x \<in> set seen \<or> 2 \<le> length (filter (\<lambda>r'. key r' = key x) (r # rs))) rs"
  proof (rule filter_cong[OF refl])
    fix x assume "x \<in> set rs"
    then have "filter (\<lambda>r'. key r' = key x) rs \<noteq> []"
      by (auto simp: filter_empty_conv)
    then have "1 \<le> length (filter (\<lambda>r'. key r' = key x) rs)"
      by (cases "filter (\<lambda>r'. key r' = key x) rs") auto
    then show "(key x \<in> set (key r # seen) \<or> 2 \<le> length (filter (\<lambda>r'. key r' = key x) rs)) =
       (key x \<in> set seen \<or> 2 \<le> length (filter (\<lambda>r'. key r' = key x) (r # rs)))"
      by auto
  qed
  have step: "select_rows (duplicated_from seen (map key (r # rs))) (r # rs) =
     (if key r \<in> set seen \<or> key r \<in> set (map key rs) then [r] else []) @
       select_rows (duplicated_from (key r # seen) (map key rs)) rs"
    by (simp add: select_rows_def)
  show ?case
    unfolding step Cons.IH tail using head by simp
qed

text \<open>
  C1. The rows of the duplicate pass are the rows of the cleaned ledger that share their
  pair of vendor name and total amount with at least one other row, that is, whose group
  under this pair has two rows or more: every row of such a group, in the order of the
  ledger, each with the anomaly type of a duplicate billing, and no row of a group of
  one.
\<close>

theorem duplicates_are_whole_groups:
  "find_duplicates rs =
     map (AList.update ''anomaly_type'' (Str ''Potential Duplicate Billing''))
       (filter
          (\<lambda>r. 2 \<le> length (filter (\<lambda>r'. cell_at r' ''vendor_name'' = cell_at r ''vendor_name'' \<and>
                                        cell_at r' ''total_amount'' = cell_at r ''total_amount'') rs))
          rs)"
proof -
  have "select_rows (duplicated [''vendor_name'', ''total_amount''] rs) rs =
     filter (\<lambda>r. subset_key [''vendor_name'', ''total_amount''] r \<in> set [] \<or>
                 2 \<le> length (filter (\<lambda>r'. subset_key [''vendor_name'', ''total_amount''] r' =
                                          subset_key [''vendor_name'', ''total_amount''] r) rs)) rs"
    unfolding duplicated_def by (rule select_duplicated_from)
  then show ?thesis
    by (simp add: find_duplicates_def subset_key_def)
qed

text \<open>
  The ledger with the records (V, 100), (V, 100), (V, 200): the first two rows are the
  duplicates, the third is not among them.
\<close>

theorem duplicates_are_whole_groups_witness:
  "load_ledger plain (three_invoices ''200'') =
     Inr \<lparr>columns = [''source_file'', ''vendor_name'', ''total_amount''],
          rows = three_rows 200\<rparr> \<and>
   find_duplicates (three_rows 200) =
     map (AList.update ''anomaly_type'' (Str ''Potential Duplicate Billing''))
       [invoice_row ''a.pdf'' ''V'' 100, invoice_row ''b.pdf'' ''V'' 100]"
  using duplicates_are_whole_groups [of "three_rows 200"] load_three_invoices
  by (simp add: three_rows_def amount_rows_def invoice_row_def cell_at_def)

section \<open>Price spikes\<close>

lemma numbers_of_Num: "numbers_of (map Num xs) = xs"
  by (induction xs) auto

lemma mean_Num: "xs \<noteq> [] \<Longrightarrow> mean P (map Num xs) = Num (mean_of P xs)"
  unfolding mean_def numbers_of_Num by (cases xs) simp_all

lemma spike_of_group_amounts:
  assumes amounts: "map (\<lambda>r. cell_at r ''total_amount'') g = map Num xs"
    and two: "2 \<le> length g"
  shows "spike_of_group P thr g =
     (if double_of (mean_of P (butlast xs) * double_of (1 + thr)) < last xs
      then [spike_entry thr (last g) (Num (mean_of P (butlast xs)))]
      else [])"
proof -
  have len: "length xs = length g"
    using amounts by (metis length_map)
  have g: "g \<noteq> []" and xs: "xs \<noteq> []" and bl: "butlast xs \<noteq> []"
    using two len by (auto simp: butlast_conv_take)
  have prior: "map (\<lambda>r. cell_at r ''total_amount'') (butlast g) = map Num (butlast xs)"
    using amounts by (metis map_butlast)
  have latest: "cell_at (last g) ''total_amount'' = Num (last xs)"
    using amounts g xs by (metis last_map)
  show ?thesis
    using two by (simp add: spike_of_group_def prior latest mean_Num[OF bl] Let_def)
qed

lemma spike_of_group_le1: "length (spike_of_group P thr g) \<le> 1"
  by (simp add: spike_of_group_def Let_def)

lemma spike_of_group_vendor:
  assumes "e \<in> set (spike_of_group P thr g)" and "\<forall>r\<in>set g. cell_at r ''vendor_name'' = v"
  shows "cell_at e ''vendor_name'' = v"
proof -
  from assms(1) have g: "g \<noteq> []"
    and e: "e = spike_entry thr (last g) (mean P (map (\<lambda>r. cell_at r ''total_amount'') (butlast g)))"
    by (auto simp: spike_of_group_def Let_def split: if_splits)
  from g have "last g \<in> set g" by simp
  with assms(2) have "cell_at (last g) ''vendor_name'' = v" by blast
  then show ?thesis by (simp add: e spike_entry_def cell_at_update)
qed

lemma filter_concat_by_tag:
  assumes "distinct ks" and "\<And>k e. k \<in> set ks \<Longrightarrow> e \<in> set (f k) \<Longrightarrow> tag e = k"
  shows "filter (\<lambda>e. tag e = v) (concat (map f ks)) = (if v \<in> set ks then f v else [])"
  using assms
proof (induction ks)
  case Nil
  show ?case by simp
next
  case (Cons k ks)
  have keep: "filter (\<lambda>e. tag e = v) (f k) = (if k = v then f k else [])"
    using Cons.prems(2)[of k] by (auto simp: filter_empty_conv filter_id_conv)
  have rest: "filter (\<lambda>e. tag e = v) (concat (map f ks)) = (if v \<in> set ks then f v else [])"
    using Cons by auto
  show ?case using Cons.prems(1) by (auto simp: keep rest)
qed

lemma distinct_group_keys: "distinct (group_keys c rs)"
  by (simp add: group_keys_def)

lemma set_group_keys: "set (group_keys c rs) = (\<lambda>r. cell_at r c) ` set rs - {NaN}"
  by (auto simp: group_keys_def)

lemma find_spikes_of_vendor:
  "filter (\<lambda>e. cell_at e ''vendor_name'' = v) (find_spikes P thr rs) =
     (if v = NaN then [] else spike_of_group P thr (filter (\<lambda>r. cell_at r ''vendor_name'' = v) rs))"
proof -
  let ?f = "\<lambda>k. spike_of_group P thr (filter (\<lambda>r. cell_at r ''vendor_name'' = k) rs)"
  have fs: "find_spikes P thr rs = concat (map ?f (group_keys ''vendor_name'' rs))"
    by (simp add: find_spikes_def groupby_def comp_def)
  have tag: "\<And>k e. k \<in> set (group_keys ''vendor_name'' rs) \<Longrightarrow> e \<in> set (?f k) \<Longrightarrow>
      cell_at e ''vendor_name'' = k"
    by (rule spike_of_group_vendor) auto
  have "filter (\<lambda>e. cell_at e ''vendor_name'' = v) (find_spikes P thr rs) =
      (if v \<in> set (group_keys ''vendor_name'' rs) then ?f v else [])"
    unfolding fs by (rule filter_concat_by_tag[OF distinct_group_keys tag])
  moreover have "v \<notin> set (group_keys ''vendor_name'' rs) \<Longrightarrow> v \<noteq> NaN \<Longrightarrow>
      filter (\<lambda>r. cell_at r ''vendor_name'' = v) rs = []"
    by (auto simp: set_group_keys filter_empty_conv)
  ultimately show ?thesis
    by (auto simp: set_group_keys spike_of_group_def)
qed

text \<open>The three rows of one vendor: the spike pass decides on the third.\<close>

lemma spikes_of_amount_rows:
  "find_spikes P thr (amount_rows x y z) =
     (if double_of (mean_of P [x, y] * double_of (1 + thr)) < z
      then [spike_entry thr (invoice_row ''c.pdf'' ''V'' z) (Num (mean_of P [x, y]))]
      else [])"
  by (simp add: find_spikes_def groupby_def group_keys_def amount_rows_def invoice_row_def
      cell_at_def spike_of_group_def mean_def)

lemma mean_plain_pair: "mean_of plain [x, y] = double_of (double_of (double_of x + y) / 2)"
  by (simp add: plain_def)

text \<open>The digits of the formatted numbers.\<close>

lemma digits_of_small: "n < 10 \<Longrightarrow> digits_of n = [digit_char n]"
  by (subst digits_of.simps) simp

lemma is_digit_char: "d < 10 \<Longrightarrow> is_digit (digit_char d)"
  by (auto simp: digit_char_def is_digit_def nth_Cons')

lemma digits_of_digits: "list_all is_digit (digits_of n)"
proof (induction n rule: digits_of.induct)
  case (1 n)
  show ?case
  proof (cases "n < 10")
    case True
    then show ?thesis by (simp add: digits_of_small is_digit_char)
  next
    case False
    have "is_digit (digit_char (n mod 10))" by (rule is_digit_char) simp
    with False 1 show ?thesis by (subst digits_of.simps) simp
  qed
qed

lemma two_places:
  assumes "n < 100"
  shows "\<exists>d1 d2. replicate (2 - length (digits_of n)) (CHR ''0'') @ digits_of n = [d1, d2]
           \<and> is_digit d1 \<and> is_digit d2"
proof (cases "n < 10")
  case True
  have "is_digit (CHR ''0'')" by (simp add: is_digit_def)
  with True show ?thesis by (simp add: digits_of_small is_digit_char)
next
  case False
  with assms have d: "n div 10 < 10" by simp
  have two: "digits_of n = [digit_char (n div 10), digit_char (n mod 10)]"
    using False d by (subst digits_of.simps) (simp add: digits_of_small)
  have "is_digit (digit_char (n div 10))" "is_digit (digit_char (n mod 10))"
    using d by (simp_all add: is_digit_char)
  then show ?thesis unfolding two by simp
qed

lemma fixed_two_decimals:
  "\<exists>w d1 d2. fixed 2 x = w @ [CHR ''.'', d1, d2] \<and> is_digit d1 \<and> is_digit d2 \<and> CHR ''.'' \<notin> set w"
proof -
  define q where "q = nat (round_half_even (\<bar>x\<bar> * 10 ^ 2))"
  obtain d1 d2 where d: "replicate (2 - length (digits_of (q mod 100))) (CHR ''0'') @ digits_of (q mod 100) = [d1, d2]"
      "is_digit d1" "is_digit d2"
    using two_places[of "q mod 100"] by auto
  let ?w = "(if x < 0 then ''-'' else []) @ digits_of (q div 100)"
  have nodot: "CHR ''.'' \<notin> set (digits_of (q div 100))"
    using digits_of_digits[of "q div 100"] by (auto simp: list_all_iff is_digit_def)
  have "fixed 2 x = ?w @ [CHR ''.'', d1, d2]"
    using d(1) by (simp add: fixed_def Let_def q_def)
  with d nodot show ?thesis by (intro exI[of _ ?w] exI[of _ d1] exI[of _ d2]) auto
qed

text \<open>
  C2, as the code has it. Let a vendor have two or more rows in the cleaned and sorted
  frame, with the amounts \<open>xs\<close> in the order of the frame. The mean is the one that pandas
  returns for all amounts but the last. The limit is computed in double precision: the
  sum of one and the threshold is rounded to a double, and so is its product with the
  mean. The spike pass flags for this vendor the last row, and only it, when its amount
  is strictly greater than this limit, and flags nothing for the vendor otherwise. The
  details of the flagged row are the text "Amount", the last amount, "vs. Avg" and the
  mean, each number written with a point and exactly two digits after it. No vendor has
  more than one row among the spikes of a run.
\<close>

theorem price_spike_rule:
  assumes group: "g = filter (\<lambda>r. cell_at r ''vendor_name'' = v) rs"
    and vendor: "v \<noteq> NaN"
    and amounts: "map (\<lambda>r. cell_at r ''total_amount'') g = map Num xs"
    and two: "2 \<le> length g"
    and avg: "avg = mean_of P (butlast xs)"
    and limit: "limit = double_of (avg * double_of (1 + thr))"
  shows "filter (\<lambda>e. cell_at e ''vendor_name'' = v) (find_spikes P thr rs) =
           (if limit < last xs then [spike_entry thr (last g) (Num avg)] else []) \<and>
         cell_at (spike_entry thr (last g) (Num avg)) ''details'' =
           Str (''Amount '' @ fixed 2 (last xs) @ '' vs. Avg '' @ fixed 2 avg) \<and>
         (\<exists>w d1 d2. fixed 2 (last xs) = w @ [CHR ''.'', d1, d2] \<and> is_digit d1 \<and> is_digit d2 \<and>
                     CHR ''.'' \<notin> set w) \<and>
         (\<exists>w d1 d2. fixed 2 avg = w @ [CHR ''.'', d1, d2] \<and> is_digit d1 \<and> is_digit d2 \<and>
                     CHR ''.'' \<notin> set w) \<and>
         (\<forall>u. length (filter (\<lambda>e. cell_at e ''vendor_name'' = u) (find_spikes P thr rs)) \<le> 1)"
proof -
  have g: "g \<noteq> []" using two by auto
  have len: "length xs = length g" using amounts by (metis length_map)
  then have xs: "xs \<noteq> []" using g by auto
  have latest: "cell_at (last g) ''total_amount'' = Num (last xs)"
    using amounts g xs by (metis last_map)
  have flagged: "filter (\<lambda>e. cell_at e ''vendor_name'' = v) (find_spikes P thr rs) =
           (if limit < last xs then [spike_entry thr (last g) (Num avg)] else [])"
    using vendor spike_of_group_amounts[OF amounts two, of P thr]
    by (simp add: find_spikes_of_vendor group[symmetric] avg limit)
  have details: "cell_at (spike_entry thr (last g) (Num avg)) ''details'' =
           Str (''Amount '' @ fixed 2 (last xs) @ '' vs. Avg '' @ fixed 2 avg)"
    by (simp add: spike_entry_def cell_at_update latest)
  have one: "length (filter (\<lambda>e. cell_at e ''vendor_name'' = u) (find_spikes P thr rs)) \<le> 1" for u
    using spike_of_group_le1 [of P thr "filter (\<lambda>r. cell_at r ''vendor_name'' = u) rs"]
    by (simp add: find_spikes_of_vendor)
  show ?thesis
    by (intro conjI allI flagged details fixed_two_decimals one)
qed

lemma fixed_121: "fixed 2 121 = ''121.00''"
  by (simp add: fixed_eval)

lemma fixed_100: "fixed 2 100 = ''100.00''"
  by (simp add: fixed_eval)

text \<open>
  With the earlier amounts 100 and 100 and the threshold 0.20, the limit is the double
  120: a third amount of 121 is flagged and a third amount of 119 is not.
\<close>

theorem price_spike_rule_witness:
  "filter (\<lambda>e. cell_at e ''vendor_name'' = Str ''V'') (find_spikes plain default_threshold (three_rows 121)) =
     [spike_entry default_threshold (invoice_row ''c.pdf'' ''V'' 121) (Num 100)] \<and>
   cell_at (spike_entry default_threshold (invoice_row ''c.pdf'' ''V'' 121) (Num 100)) ''details'' =
     Str ''Amount 121.00 vs. Avg 100.00'' \<and>
   filter (\<lambda>e. cell_at e ''vendor_name'' = Str ''V'') (find_spikes plain default_threshold (three_rows 119)) = []"
proof -
  have rows: "three_rows x = filter (\<lambda>r. cell_at r ''vendor_name'' = Str ''V'') (three_rows x)" for x
    by (simp add: three_rows_def amount_rows_def invoice_row_def cell_at_def)
  have amounts: "map (\<lambda>r. cell_at r ''total_amount'') (three_rows x) = map Num [100, 100, x]" for x
    by (simp add: three_rows_def amount_rows_def invoice_row_def cell_at_def)
  have two: "2 \<le> length (three_rows x)" for x
    by (simp add: three_rows_def amount_rows_def)
  have avg: "(100::rat) = mean_of plain (butlast [100, 100, x])" for x
    by (simp add: mean_plain_100)
  have limit: "(120::rat) = double_of (100 * double_of (1 + default_threshold))"
    by (simp add: limit_100)
  have last: "last (three_rows x) = invoice_row ''c.pdf'' ''V'' x" for x
    by (simp add: three_rows_def amount_rows_def)
  show ?thesis
    using price_spike_rule [OF rows [of 121] _ amounts [of 121] two avg [of 121] limit]
      price_spike_rule [OF rows [of 119] _ amounts [of 119] two avg [of 119] limit]
    by (simp add: last fixed_121 fixed_100)
qed

text \<open>
  C2 as stated fails, since the code computes the limit in doubles. With the amounts 3, 3
  and 3.6 and the threshold 0.20 the last row is flagged, although 3.6 is not greater
  than 3 times 1.2: the double product is 3.5999999999999996. With the amounts 0.09,
  0.09 and 0.108 nothing is flagged, although the double 0.108 is greater than the exact
  product of the mean of the two doubles 0.09 and one plus the double 0.20.
\<close>

theorem rounded_limit_counterexample:
  "find_spikes plain default_threshold (amount_rows 3 3 amount_3_6) =
     [spike_entry default_threshold (invoice_row ''c.pdf'' ''V'' amount_3_6) (Num 3)] \<and>
   \<not> (3 * (1 + 1 / 5) < (36 / 10 :: rat)) \<and>
   find_spikes plain default_threshold (amount_rows amount_0_09 amount_0_09 amount_0_108) = [] \<and>
   (amount_0_09 + amount_0_09) / 2 * (1 + default_threshold) < amount_0_108"
proof -
  have first: "find_spikes plain default_threshold (amount_rows 3 3 amount_3_6) =
     [spike_entry default_threshold (invoice_row ''c.pdf'' ''V'' amount_3_6) (Num 3)]"
    by (simp add: spikes_of_amount_rows mean_plain_3 limit_3) (simp add: amount_3_6_value)
  have second:
    "find_spikes plain default_threshold (amount_rows amount_0_09 amount_0_09 amount_0_108) = []"
    by (simp add: spikes_of_amount_rows mean_plain_0_09 limit_0_09) (simp add: amount_0_108_value)
  have exact: "(amount_0_09 + amount_0_09) / 2 * (1 + default_threshold) < amount_0_108"
    by (simp add: amount_0_09_value amount_0_108_value default_threshold_value)
  show ?thesis
    using first second exact by simp
qed

section \<open>The order of a vendor's rows before the spike pass\<close>

lemma filter_sort_key_same:
  assumes "\<And>r. Q r \<Longrightarrow> f r = k"
  shows "filter Q (sort_key f xs) = filter Q xs"
proof -
  have "filter Q (sort_key f xs) = filter Q (filter (\<lambda>y. f y = k) (sort_key f xs))"
    using assms by (auto intro: filter_cong)
  also have "\<dots> = filter Q (filter (\<lambda>y. f y = k) xs)"
    by (simp only: sort_key_stable)
  also have "\<dots> = filter Q xs"
    using assms by (auto intro: filter_cong)
  finally show ?thesis .
qed

lemma time_rank_le: "(time_rank (cell_at r ''date'') \<le> time_rank (cell_at s ''date'')) = date_before r s"
  by (cases "cell_at r ''date''"; cases "cell_at s ''date''") (auto simp: date_before_def)

lemma sorted_vendor_group:
  assumes "v \<noteq> NaN"
  shows "sorted_wrt date_before (filter (\<lambda>r. cell_at r ''vendor_name'' = v) (sort_values rs))"
proof -
  let ?g = "filter (\<lambda>r. cell_at r ''vendor_name'' = v) (sort_values rs)"
  have "sorted (map sort_rank (sort_values rs))"
    by (simp add: sort_values_def)
  then have "sorted (map sort_rank ?g)"
    by (rule sorted_filter)
  moreover have "map sort_rank ?g = map (\<lambda>r. ((False, text_of v), time_rank (cell_at r ''date''))) ?g"
    using assms by (auto simp: sort_rank_def)
  ultimately have "sorted (map (\<lambda>r. ((False, text_of v), time_rank (cell_at r ''date''))) ?g)"
    by simp
  then have "sorted_wrt (\<lambda>r s. time_rank (cell_at r ''date'') \<le> time_rank (cell_at s ''date'')) ?g"
    by (simp add: sorted_map less_eq_prod_def)
  then show ?thesis by (simp add: time_rank_le)
qed

lemma undated_in_place:
  assumes "v \<noteq> NaN"
  shows "filter (\<lambda>r. cell_at r ''vendor_name'' = v \<and> (\<forall>t. cell_at r ''date'' \<noteq> Time t)) (sort_values rs)
       = filter (\<lambda>r. cell_at r ''vendor_name'' = v \<and> (\<forall>t. cell_at r ''date'' \<noteq> Time t)) rs"
  unfolding sort_values_def
proof (rule filter_sort_key_same)
  fix r assume "cell_at r ''vendor_name'' = v \<and> (\<forall>t. cell_at r ''date'' \<noteq> Time t)"
  then show "sort_rank r = ((False, text_of v), (True, 0))"
    using assms by (cases "cell_at r ''date''") (auto simp: sort_rank_def)
qed

lemma same_date_in_place:
  assumes "v \<noteq> NaN"
  shows "filter (\<lambda>r. cell_at r ''vendor_name'' = v \<and> cell_at r ''date'' = Time t) (sort_values rs)
       = filter (\<lambda>r. cell_at r ''vendor_name'' = v \<and> cell_at r ''date'' = Time t) rs"
  unfolding sort_values_def
proof (rule filter_sort_key_same)
  fix r assume "cell_at r ''vendor_name'' = v \<and> cell_at r ''date'' = Time t"
  then show "sort_rank r = ((False, text_of v), (False, t))"
    using assms by (auto simp: sort_rank_def)
qed

lemma order_four_dates:
  "order_by_date plain four_dates =
     [dated_row ''c.pdf'' ''V'' (Time 20240101), dated_row ''a.pdf'' ''V'' (Time 20240301),
      dated_row ''b.pdf'' ''V'' NaN, dated_row ''d.pdf'' ''V'' NaN]"
  by (simp add: order_by_date_def four_dates_def assign_column_def dated_row_def cell_at_def
      plain_def natural_of_def is_digit_def sort_values_def sort_rank_def)

text \<open>
  C9. When the ledger has a date column, the dates are parsed and the frame is sorted
  before the spike pass. Then, for every vendor, the vendor's rows stand by ascending
  date, the rows whose date is missing or unreadable stand after all dated rows, and
  these undated rows are in the order they had in the ledger. Rows of the same date keep
  their order too.
\<close>

theorem vendor_rows_sorted_by_date:
  assumes date: "''date'' \<in> set (columns df)"
    and vendor: "v \<noteq> NaN"
    and parsed: "parsed = map (\<lambda>r. AList.update ''date'' (to_datetime P (cell_at r ''date'')) r) (rows df)"
    and group: "g = filter (\<lambda>r. cell_at r ''vendor_name'' = v) (order_by_date P df)"
  shows "sorted_wrt date_before g \<and>
         filter (\<lambda>r. \<forall>t. cell_at r ''date'' \<noteq> Time t) g =
           filter (\<lambda>r. \<forall>t. cell_at r ''date'' \<noteq> Time t)
             (filter (\<lambda>r. cell_at r ''vendor_name'' = v) parsed) \<and>
         (\<forall>t. filter (\<lambda>r. cell_at r ''date'' = Time t) g =
              filter (\<lambda>r. cell_at r ''date'' = Time t)
                (filter (\<lambda>r. cell_at r ''vendor_name'' = v) parsed))"
proof -
  have sorted: "order_by_date P df = sort_values parsed"
    using date by (simp add: order_by_date_def assign_column_def parsed)
  have "sorted_wrt date_before g"
    unfolding group sorted by (rule sorted_vendor_group[OF vendor])
  moreover have "filter (\<lambda>r. \<forall>t. cell_at r ''date'' \<noteq> Time t) g =
      filter (\<lambda>r. \<forall>t. cell_at r ''date'' \<noteq> Time t)
        (filter (\<lambda>r. cell_at r ''vendor_name'' = v) parsed)"
    unfolding group sorted filter_filter
    using undated_in_place[OF vendor, of parsed] by (simp add: conj_commute)
  moreover have "filter (\<lambda>r. cell_at r ''date'' = Time t) g =
      filter (\<lambda>r. cell_at r ''date'' = Time t)
        (filter (\<lambda>r. cell_at r ''vendor_name'' = v) parsed)" for t
    unfolding group sorted filter_filter
    using same_date_in_place[OF vendor, of t parsed] by (simp add: conj_commute)
  ultimately show ?thesis by blast
qed

text \<open>
  Four invoices of one vendor, dated 1 March, not dated, dated 1 January and dated
  "soon": the two dated rows come first, January before March, then the two undated rows
  as they stood.
\<close>

theorem vendor_rows_sorted_by_date_witness:
  "''date'' \<in> set (columns four_dates) \<and>
   order_by_date plain four_dates =
     [dated_row ''c.pdf'' ''V'' (Time 20240101), dated_row ''a.pdf'' ''V'' (Time 20240301),
      dated_row ''b.pdf'' ''V'' NaN, dated_row ''d.pdf'' ''V'' NaN] \<and>
   sorted_wrt date_before (order_by_date plain four_dates) \<and>
   filter (\<lambda>r. \<forall>t. cell_at r ''date'' \<noteq> Time t) (order_by_date plain four_dates) =
     [dated_row ''b.pdf'' ''V'' NaN, dated_row ''d.pdf'' ''V'' NaN]"
proof -
  have date: "''date'' \<in> set (columns four_dates)"
    by (simp add: four_dates_def)
  have vendor: "Str ''V'' \<noteq> NaN"
    by simp
  have group: "order_by_date plain four_dates =
      filter (\<lambda>r. cell_at r ''vendor_name'' = Str ''V'') (order_by_date plain four_dates)"
    by (simp add: order_four_dates dated_row_def cell_at_def)
  have undated: "filter (\<lambda>r. \<forall>t. cell_at r ''date'' \<noteq> Time t) (order_by_date plain four_dates) =
     [dated_row ''b.pdf'' ''V'' NaN, dated_row ''d.pdf'' ''V'' NaN]"
    by (simp add: order_four_dates dated_row_def cell_at_def)
  show ?thesis
    using vendor_rows_sorted_by_date [OF date vendor refl group] date order_four_dates undated
    by simp
qed

section \<open>What a detection run reads and writes\<close>

lemma to_numeric_cases: "to_numeric P v = NaN \<or> (\<exists>x. to_numeric P v = Num x)"
  by (cases v) (auto split: option.splits)

lemma clean_ledger_rows:
  assumes "clean_ledger P raw = Inr df"
  shows "rows df =
     map (\<lambda>r. AList.update ''total_amount'' (to_numeric P (cell_at r ''total_amount'')) r)
       (filter (\<lambda>r. to_numeric P (cell_at r ''total_amount'') \<noteq> NaN \<and> cell_at r ''vendor_name'' \<noteq> NaN)
          (rows raw))"
  using assms
  by (auto simp: clean_ledger_def assign_column_def dropna_def complete_in_def cell_at_update
      filter_map comp_def split: if_splits list.splits)

lemma clean_ledger_without_malformed:
  "clean_ledger P (raw\<lparr>rows := filter (\<lambda>r. to_numeric P (cell_at r ''total_amount'') \<noteq> NaN \<and>
                                          cell_at r ''vendor_name'' \<noteq> NaN) (rows raw)\<rparr>) =
   clean_ledger P raw"
  by (auto simp: clean_ledger_def assign_column_def dropna_def complete_in_def cell_at_update
      filter_map comp_def split: if_splits list.splits)

lemma detect_keeps_ledger:
  "log_file (after (detect_financial_anomalies P ins thr d)) = log_file d"
  by (simp add: detect_financial_anomalies_def Let_def split: sum.splits py_exn.splits prod.splits)

lemma detect_returns_none:
  "returned (detect_financial_anomalies P ins thr d) = PyNone"
  by (simp add: detect_financial_anomalies_def Let_def split: sum.splits py_exn.splits prod.splits)

lemma detect_depends_on_cleaned:
  assumes "load_ledger P (log_file d') = load_ledger P (log_file d)"
    and "log_file d' \<noteq> Missing" and "log_file d \<noteq> Missing"
    and "report_file d' = report_file d"
  shows "report_file (after (detect_financial_anomalies P ins thr d')) =
         report_file (after (detect_financial_anomalies P ins thr d)) \<and>
         printed (detect_financial_anomalies P ins thr d') =
         printed (detect_financial_anomalies P ins thr d)"
  using assms
  by (simp add: detect_financial_anomalies_def Let_def split: sum.splits py_exn.splits prod.splits)

lemma load_stale: "load_ledger plain (log_file stale_dir) = Inr \<lparr>columns = ledger_header, rows = []\<rparr>"
  by (simp add: stale_dir_def ledger_header_def reading_defs)

lemma run_stale: "detect_financial_anomalies plain no_insights default_threshold stale_dir =
   \<lparr>returned = PyNone, after = stale_dir, printed = [Starting_detection, No_anomalies]\<rparr>"
  by (simp add: detect_financial_anomalies_def load_stale analyse_def find_duplicates_def duplicated_def select_rows_def
     find_spikes_def groupby_def group_keys_def ledger_header_def) (simp add: stale_dir_def)

lemma load_three: "load_ledger plain (log_file three_dir) = Inr \<lparr>columns = ledger_header, rows = three_rows 200\<rparr>"
  by (simp add: three_dir_def ledger_header_def load_three_invoices)

lemma spikes_three: "find_spikes plain default_threshold (three_rows 200) = [spike_entry default_threshold (invoice_row ''c.pdf'' ''V'' 200) (Num 100)]"
  by (simp add: three_rows_def spikes_of_amount_rows mean_plain_100 limit_100)


lemma analyse_three:
  "analyse plain default_threshold \<lparr>columns = ledger_header, rows = three_rows 200\<rparr> =
     ([find_duplicates (three_rows 200), find_spikes plain default_threshold (three_rows 200)],
      [Found_duplicates 2, Found_spikes 1])"
  by (simp add: analyse_def Let_def spikes_three ledger_header_def)
     (simp add: find_duplicates_def duplicated_def select_rows_def subset_key_def three_rows_def amount_rows_def
        invoice_row_def cell_at_def)

lemma report_three:
  "concat_frames [find_duplicates (three_rows 200), find_spikes plain default_threshold (three_rows 200)] =
     [invoice_row ''a.pdf'' ''V'' 100 @
        [(''anomaly_type'', Str ''Potential Duplicate Billing''), (''details'', NaN)],
      invoice_row ''b.pdf'' ''V'' 100 @
        [(''anomaly_type'', Str ''Potential Duplicate Billing''), (''details'', NaN)],
      invoice_row ''c.pdf'' ''V'' 200 @
        [(''anomaly_type'', Str ''Price Spike (>20%)''),
         (''details'', Str ''Amount 200.00 vs. Avg 100.00'')]]"
  by (simp add: spikes_three)
     (simp add: concat_frames_def frame_columns_def ordered_union_def reindex_def
        find_duplicates_def duplicated_def select_rows_def subset_key_def three_rows_def amount_rows_def
        invoice_row_def cell_at_def spike_entry_def percent_default fixed_eval)

text \<open>
  C4, as the code has it. A detection run never raises and returns no value. It writes
  the report only when it has found an anomaly: the report is then the duplicates
  followed by the spikes, over the columns of both, and replaces the report of an earlier
  run. When the ledger is missing, empty or unreadable, when no row is left after the
  cleaning, or when neither pass finds anything, the run writes nothing and the report
  file stays as it was.
\<close>

theorem report_written_when_anomalies_found:
  "returned (detect_financial_anomalies P ins thr d) = PyNone \<and>
   (log_file d = Missing \<longrightarrow> after (detect_financial_anomalies P ins thr d) = d) \<and>
   (\<forall>e. log_file d \<noteq> Missing \<and> load_ledger P (log_file d) = Inl e \<longrightarrow>
        after (detect_financial_anomalies P ins thr d) = d) \<and>
   (\<forall>df dups spikes.
      log_file d \<noteq> Missing \<and> load_ledger P (log_file d) = Inr df \<and>
      dups = find_duplicates (rows df) \<and>
      spikes = find_spikes P thr (if ''date'' \<in> set (columns df) then order_by_date P df else rows df)
      \<longrightarrow>
      after (detect_financial_anomalies P ins thr d) =
        (if dups = [] \<and> spikes = [] then d
         else d\<lparr>report_file := Some (concat_frames (filter (\<lambda>f. f \<noteq> []) [dups, spikes]))\<rparr>))"
proof -
  have "after (detect_financial_anomalies P ins thr d) = d" if "log_file d = Missing"
    using that by (simp add: detect_financial_anomalies_def)
  moreover have "after (detect_financial_anomalies P ins thr d) = d"
    if "log_file d \<noteq> Missing \<and> load_ledger P (log_file d) = Inl e" for e
    using that by (simp add: detect_financial_anomalies_def split: py_exn.splits)
  moreover have "after (detect_financial_anomalies P ins thr d) =
        (if dups = [] \<and> spikes = [] then d
         else d\<lparr>report_file := Some (concat_frames (filter (\<lambda>f. f \<noteq> []) [dups, spikes]))\<rparr>)"
    if "log_file d \<noteq> Missing \<and> load_ledger P (log_file d) = Inr df \<and>
      dups = find_duplicates (rows df) \<and>
      spikes = find_spikes P thr (if ''date'' \<in> set (columns df) then order_by_date P df else rows df)"
    for df dups spikes
    using that by (simp add: detect_financial_anomalies_def analyse_def Let_def)
  ultimately show ?thesis
    using detect_returns_none by blast
qed

text \<open>
  The ledger of three invoices gives a report of two duplicates and one spike; the
  ledger without a usable row leaves the directory as it was.
\<close>

theorem report_written_when_anomalies_found_witness:
  "after (detect_financial_anomalies plain no_insights default_threshold three_dir) =
     three_dir\<lparr>report_file := Some
       [invoice_row ''a.pdf'' ''V'' 100 @
          [(''anomaly_type'', Str ''Potential Duplicate Billing''), (''details'', NaN)],
        invoice_row ''b.pdf'' ''V'' 100 @
          [(''anomaly_type'', Str ''Potential Duplicate Billing''), (''details'', NaN)],
        invoice_row ''c.pdf'' ''V'' 200 @
          [(''anomaly_type'', Str ''Price Spike (>20%)''),
           (''details'', Str ''Amount 200.00 vs. Avg 100.00'')]]\<rparr> \<and>
   after (detect_financial_anomalies plain no_insights default_threshold stale_dir) = stale_dir \<and>
   returned (detect_financial_anomalies plain no_insights default_threshold stale_dir) = PyNone"
proof -
  have three: "log_file three_dir \<noteq> Missing"
    by (simp add: three_dir_def three_invoices_def)
  have stale: "log_file stale_dir \<noteq> Missing"
    by (simp add: stale_dir_def)
  have some: "find_spikes plain default_threshold (three_rows 200) \<noteq> []"
    by (simp add: spikes_three)
  have none: "find_duplicates [] = []" "find_spikes plain default_threshold [] = []"
    by (simp_all add: find_duplicates_def duplicated_def select_rows_def find_spikes_def
        groupby_def group_keys_def)
  have "find_duplicates (three_rows 200) \<noteq> []"
    by (simp add: find_duplicates_def duplicated_def select_rows_def subset_key_def three_rows_def amount_rows_def
        invoice_row_def cell_at_def)
  then show ?thesis
    using report_written_when_anomalies_found [of plain no_insights default_threshold three_dir]
      report_written_when_anomalies_found [of plain no_insights default_threshold stale_dir]
      three stale some none load_three load_stale report_three
    by (simp add: ledger_header_def)
qed

text \<open>
  C4 as stated fails: with no row left after the cleaning, the run does not produce an
  empty report; the report of the earlier run is still the content of the report file.
\<close>

theorem stale_report_counterexample:
  "report_file (after (detect_financial_anomalies plain no_insights default_threshold stale_dir)) =
     Some [invoice_row ''x.pdf'' ''W'' 500] \<and>
   load_ledger plain (log_file stale_dir) = Inr \<lparr>columns = ledger_header, rows = []\<rparr>"
  by (simp add: run_stale load_stale) (simp add: stale_dir_def)


lemma read_messy:
  "read_csv plain (log_file messy_dir) =
     Inr \<lparr>columns = ledger_header,
          rows = [[(''source_file'', Str ''a.pdf''), (''vendor_name'', Str ''V''), (''total_amount'', Str ''100'')],
                  [(''source_file'', Str ''b.pdf''), (''vendor_name'', Str ''V''), (''total_amount'', Str ''abc'')],
                  [(''source_file'', Str ''c.pdf''), (''vendor_name'', NaN), (''total_amount'', Str ''100'')],
                  [(''source_file'', Str ''d.pdf''), (''vendor_name'', Str ''V''), (''total_amount'', Str ''100'')]]\<rparr>"
  by (simp add: messy_dir_def ledger_header_def read_csv_def read_cell_def pad_fields_def plain_def)

lemma read_tidy:
  "read_csv plain (log_file tidy_dir) =
     Inr \<lparr>columns = ledger_header,
          rows = [[(''source_file'', Str ''a.pdf''), (''vendor_name'', Str ''V''), (''total_amount'', Str ''100'')],
                  [(''source_file'', Str ''d.pdf''), (''vendor_name'', Str ''V''), (''total_amount'', Str ''100'')]]\<rparr>"
  by (simp add: tidy_dir_def ledger_header_def read_csv_def read_cell_def pad_fields_def plain_def)

lemma run_tidy:
  "detect_financial_anomalies plain no_insights default_threshold tidy_dir =
     \<lparr>returned = PyNone,
      after = tidy_dir\<lparr>report_file := Some
        (map (AList.update ''anomaly_type'' (Str ''Potential Duplicate Billing''))
           [invoice_row ''a.pdf'' ''V'' 100, invoice_row ''d.pdf'' ''V'' 100])\<rparr>,
      printed = [Starting_detection, Found_duplicates 2, Summary [],
                 Anomaly_details
                   (map (AList.update ''anomaly_type'' (Str ''Potential Duplicate Billing''))
                      [invoice_row ''a.pdf'' ''V'' 100, invoice_row ''d.pdf'' ''V'' 100]),
                 Report_saved]\<rparr>"
proof -
  have load: "load_ledger plain (log_file tidy_dir) =
      Inr \<lparr>columns = ledger_header,
           rows = [invoice_row ''a.pdf'' ''V'' 100, invoice_row ''d.pdf'' ''V'' 100]\<rparr>"
    by (simp add: load_ledger_def read_tidy)
       (simp add: ledger_header_def invoice_row_def clean_ledger_def assign_column_def dropna_def
          natural_of_def is_digit_def double_100 cell_at_def complete_in_def plain_def)
  have dups: "find_duplicates [invoice_row ''a.pdf'' ''V'' 100, invoice_row ''d.pdf'' ''V'' 100] =
      map (AList.update ''anomaly_type'' (Str ''Potential Duplicate Billing''))
        [invoice_row ''a.pdf'' ''V'' 100, invoice_row ''d.pdf'' ''V'' 100]"
    by (simp add: find_duplicates_def duplicated_def select_rows_def subset_key_def
        invoice_row_def cell_at_def)
  have spikes: "find_spikes plain default_threshold [invoice_row ''a.pdf'' ''V'' 100, invoice_row ''d.pdf'' ''V'' 100] = []"
    by (simp add: find_spikes_def groupby_def group_keys_def invoice_row_def cell_at_def
        spike_of_group_def mean_def mean_plain_one limit_100)
  have missing: "log_file tidy_dir \<noteq> Missing"
    by (simp add: tidy_dir_def)
  have frame: "concat_frames
        [[AList.update ''anomaly_type'' (Str ''Potential Duplicate Billing'') (invoice_row ''a.pdf'' ''V'' 100),
          AList.update ''anomaly_type'' (Str ''Potential Duplicate Billing'') (invoice_row ''d.pdf'' ''V'' 100)]] =
       [AList.update ''anomaly_type'' (Str ''Potential Duplicate Billing'') (invoice_row ''a.pdf'' ''V'' 100),
        AList.update ''anomaly_type'' (Str ''Potential Duplicate Billing'') (invoice_row ''d.pdf'' ''V'' 100)]"
    by (simp add: concat_frames_def frame_columns_def ordered_union_def reindex_def
        invoice_row_def cell_at_def)
  show ?thesis
    using missing
    by (simp add: detect_financial_anomalies_def load analyse_def Let_def dups spikes frame
        ledger_header_def no_insights_def)
qed

text \<open>
  C6. A row whose amount does not coerce to a number, or whose vendor name is missing,
  has no part in a detection run: the report and the output of the run are those of a
  ledger without these rows, and every row that the two passes read has a numeric amount
  and a vendor name. The run leaves the ledger file as it is.
\<close>

theorem malformed_rows_are_left_out:
  assumes raw: "read_csv P (log_file d) = Inr raw"
    and without: "read_csv P (log_file d') =
        Inr (raw\<lparr>rows := filter (\<lambda>r. to_numeric P (cell_at r ''total_amount'') \<noteq> NaN \<and>
                                       cell_at r ''vendor_name'' \<noteq> NaN) (rows raw)\<rparr>)"
    and report: "report_file d' = report_file d"
  shows "report_file (after (detect_financial_anomalies P ins thr d')) =
           report_file (after (detect_financial_anomalies P ins thr d)) \<and>
         printed (detect_financial_anomalies P ins thr d') =
           printed (detect_financial_anomalies P ins thr d) \<and>
         (\<forall>df. load_ledger P (log_file d) = Inr df \<longrightarrow>
            (\<forall>r\<in>set (rows df). (\<exists>x. cell_at r ''total_amount'' = Num x) \<and>
                                cell_at r ''vendor_name'' \<noteq> NaN)) \<and>
         log_file (after (detect_financial_anomalies P ins thr d)) = log_file d"
proof -
  have same: "load_ledger P (log_file d') = load_ledger P (log_file d)"
    by (simp add: load_ledger_def raw without clean_ledger_without_malformed)
  have here: "log_file d \<noteq> Missing" "log_file d' \<noteq> Missing"
    using raw without by (auto simp: read_csv_def)
  have cleaned: "(\<exists>x. cell_at r ''total_amount'' = Num x) \<and> cell_at r ''vendor_name'' \<noteq> NaN"
    if "load_ledger P (log_file d) = Inr df" and "r \<in> set (rows df)" for df r
  proof -
    from that(1) have "clean_ledger P raw = Inr df"
      by (simp add: load_ledger_def raw)
    from clean_ledger_rows[OF this] that(2) obtain r0 where
      r: "r = AList.update ''total_amount'' (to_numeric P (cell_at r0 ''total_amount'')) r0"
      and ok: "to_numeric P (cell_at r0 ''total_amount'') \<noteq> NaN" "cell_at r0 ''vendor_name'' \<noteq> NaN"
      by auto
    from ok(1) to_numeric_cases[of P "cell_at r0 ''total_amount''"]
    obtain x where "to_numeric P (cell_at r0 ''total_amount'') = Num x" by auto
    with ok(2) show ?thesis by (simp add: r cell_at_update)
  qed
  show ?thesis
    using detect_depends_on_cleaned[OF same here(2) here(1) report] cleaned detect_keeps_ledger
    by blast
qed

text \<open>
  A ledger of four rows, one with the amount "abc" and one without a vendor: the report
  holds the two other rows, as for the ledger of these two rows alone, and the ledger
  file still has its four rows.
\<close>

theorem malformed_rows_are_left_out_witness:
  "report_file (after (detect_financial_anomalies plain no_insights default_threshold messy_dir)) =
     Some (map (AList.update ''anomaly_type'' (Str ''Potential Duplicate Billing''))
             [invoice_row ''a.pdf'' ''V'' 100, invoice_row ''d.pdf'' ''V'' 100]) \<and>
   log_file (after (detect_financial_anomalies plain no_insights default_threshold messy_dir)) =
     Lines [ledger_header,
            [''a.pdf'', ''V'', ''100''], [''b.pdf'', ''V'', ''abc''],
            [''c.pdf'', [], ''100''], [''d.pdf'', ''V'', ''100'']]"
proof -
  have without: "read_csv plain (log_file tidy_dir) =
      Inr (\<lparr>columns = ledger_header,
          rows = [[(''source_file'', Str ''a.pdf''), (''vendor_name'', Str ''V''), (''total_amount'', Str ''100'')],
                  [(''source_file'', Str ''b.pdf''), (''vendor_name'', Str ''V''), (''total_amount'', Str ''abc'')],
                  [(''source_file'', Str ''c.pdf''), (''vendor_name'', NaN), (''total_amount'', Str ''100'')],
                  [(''source_file'', Str ''d.pdf''), (''vendor_name'', Str ''V''), (''total_amount'', Str ''100'')]]\<rparr>
        \<lparr>rows := filter (\<lambda>r. to_numeric plain (cell_at r ''total_amount'') \<noteq> NaN \<and>
                               cell_at r ''vendor_name'' \<noteq> NaN)
           (rows \<lparr>columns = ledger_header,
          rows = [[(''source_file'', Str ''a.pdf''), (''vendor_name'', Str ''V''), (''total_amount'', Str ''100'')],
                  [(''source_file'', Str ''b.pdf''), (''vendor_name'', Str ''V''), (''total_amount'', Str ''abc'')],
                  [(''source_file'', Str ''c.pdf''), (''vendor_name'', NaN), (''total_amount'', Str ''100'')],
                  [(''source_file'', Str ''d.pdf''), (''vendor_name'', Str ''V''), (''total_amount'', Str ''100'')]]\<rparr>)\<rparr>)"
    by (simp add: read_tidy) (simp add: cell_at_def plain_def natural_of_def is_digit_def double_100)
  have report: "report_file tidy_dir = report_file messy_dir"
    by (simp add: tidy_dir_def messy_dir_def)
  show ?thesis
    using malformed_rows_are_left_out [OF read_messy without report, of no_insights default_threshold]
    by (simp add: run_tidy) (simp add: messy_dir_def)
qed

section \<open>One run of the bulk processor\<close>

text \<open>
  The loop handles every file that the ledger does not record on its own: the staged
  records are the records of the files that succeed, in the order of the directory, and
  the printed lines are those of each file in turn.
\<close>

lemma main_loop_eq:
  "main_loop E P files (recs, out) =
     (recs @ List.map_filter (\<lambda>f. fst (try_file E f)) (filter (\<lambda>f. Str f \<notin> P) files),
      out @ concat (map (\<lambda>f. Processing f # snd (try_file E f)) (filter (\<lambda>f. Str f \<notin> P) files)))"
proof (induction files arbitrary: recs out)
  case Nil
  show ?case by (simp add: map_filter_simps)
next
  case (Cons f files)
  show ?case
    by (cases "try_file E f") (auto simp: Cons.IH map_filter_simps split: option.splits)
qed







lemma bulk_with_key:
  assumes key: "\<not> falsy (api_key E)"
    and ledger: "get_processed_files (pd E) (log_file d) = Inr P"
    and new: "new_files = filter (\<lambda>f. Str f \<notin> P) (glob_pdf (listing d))"
    and staged: "staged = List.map_filter (\<lambda>f. fst (try_file E f)) new_files"
  shows "bulk_process_invoices E d =
     Inr \<lparr>returned = PyNone,
          after = (if staged = [] then d else d\<lparr>log_file := to_csv_append staged (log_file d)\<rparr>),
          printed = [Starting_bulk, Found_processed (card P)] @
                    concat (map (\<lambda>f. Processing f # snd (try_file E f)) new_files) @
                    (if staged = [] then [No_new_files, Bulk_complete]
                     else [Found_new (length staged), Appended, Bulk_complete])\<rparr>"
  using key by (simp add: bulk_process_invoices_def ledger main_loop_eq new staged)



lemma bulk_without_key:
  "falsy (api_key E) \<Longrightarrow>
     bulk_process_invoices E d =
       Inr \<lparr>returned = PyNone, after = d, printed = [Starting_bulk, Api_key_not_found]\<rparr>"
  by (simp add: bulk_process_invoices_def)

lemma bulk_returns_none:
  "bulk_process_invoices E d = Inr run \<Longrightarrow> returned run = PyNone"
  by (auto simp: bulk_process_invoices_def split: if_splits sum.splits prod.splits)


section \<open>The ledger that a run leaves\<close>

lemma to_csv_append_Lines:
  "to_csv_append recs (Lines ls) = Lines (ls @ map (csv_line (new_columns recs)) recs)"
  by (simp add: to_csv_append_def)










section \<open>A run on the inbox\<close>

lemma glob_inbox: "glob_pdf (listing inbox) = [''c.pdf'', ''b.pdf'', ''d.pdf'', ''a.pdf'']"
  by (simp add: inbox_def glob_pdf_def is_pdf_name_def)

lemma try_files:
  "try_file office ''c.pdf'' = (None, [Critical_error ''c.pdf'' OSError])"
  "try_file office ''b.pdf'' = (None, [No_text_warning ''b.pdf''])"
  "try_file office ''d.pdf'' = (None, [Gemini_error ''d.pdf'' (Some ''Failed to parse JSON from Gemini response.'')])"
  "try_file office ''a.pdf'' =
     (Some [(''vendor_name'', ''Acme''), (''total_amount'', ''100''), (''source_file'', ''a.pdf'')],
      [Staged ''a.pdf''])"
  by (simp_all add: try_file_def office_def blank_def is_space_def analyze_with_gemini_def
      failed_to_parse_def acme_def)

lemma key_office: "\<not> falsy (api_key office)" "falsy (api_key office_without_key)"
  by (simp_all add: falsy_def api_key_def office_def office_without_key_def)

lemma pd_office: "pd office = plain"
  by (simp add: office_def)

lemma append_acme:
  "to_csv_append [[(''vendor_name'', ''Acme''), (''total_amount'', ''100''), (''source_file'', ''a.pdf'')]] f =
     (case f of Missing \<Rightarrow> Lines [ledger_header, acme_line] | Unreadable \<Rightarrow> Unreadable
      | Lines ls \<Rightarrow> Lines (ls @ [acme_line]))"
  by (simp add: to_csv_append_def new_columns_def ordered_union_def csv_line_def
      ledger_header_def acme_line_def split: file_state.splits)

text \<open>
  The run on the inbox when the ledger records none of its files: the three failures are
  printed, and the good invoice is staged and appended.
\<close>

lemma run_unrecorded:
  assumes files: "listing d = listing inbox"
    and none: "get_processed_files plain (log_file d) = Inr {}"
  shows "bulk_process_invoices office d =
     Inr \<lparr>returned = PyNone,
          after = d\<lparr>log_file := to_csv_append
            [[(''vendor_name'', ''Acme''), (''total_amount'', ''100''), (''source_file'', ''a.pdf'')]]
            (log_file d)\<rparr>,
          printed = [Starting_bulk, Found_processed 0] @ failures_printed @
                    [Processing ''a.pdf'', Staged ''a.pdf'', Found_new 1, Appended, Bulk_complete]\<rparr>"
proof -
  have ledger: "get_processed_files (pd office) (log_file d) = Inr {}"
    using none by (simp add: pd_office)
  show ?thesis
    unfolding bulk_with_key [OF key_office(1) ledger refl refl]
    by (simp add: files glob_inbox try_files map_filter_simps failures_printed_def)
qed

lemma run_inbox:
  "bulk_process_invoices office inbox =
     Inr \<lparr>returned = PyNone,
          after = inbox\<lparr>log_file := Lines [ledger_header, acme_line]\<rparr>,
          printed = [Starting_bulk, Found_processed 0] @ failures_printed @
                    [Processing ''a.pdf'', Staged ''a.pdf'', Found_new 1, Appended, Bulk_complete]\<rparr>"
proof -
  have "get_processed_files plain (log_file inbox) = Inr {}"
    by (simp add: get_processed_files_def inbox_def)
  from run_unrecorded [OF refl this] show ?thesis
    by (simp add: append_acme) (simp add: inbox_def)
qed



lemma read_foreign:
  "read_csv plain (Lines (foreign_header # replicate n acme_line)) =
     Inr \<lparr>columns = foreign_header,
          rows = replicate n (zip foreign_header (map (read_cell plain) acme_line))\<rparr>"
  by (cases n) (simp_all add: read_csv_def acme_line_def foreign_header_def list_ex_iff
      pad_fields_def Let_def)

section \<open>Failures of single documents\<close>



section \<open>A run without a credential\<close>

text \<open>
  C5, as the code has it. No key is resolved exactly when neither the secrets nor the
  environment give a text that is not empty. The run then ends before the ledger is read
  and before any document is looked at: it does not raise, the data directory is left
  as it was, and the two lines printed are the start line and the line that says that the
  key was not found. The function returns None, as it does on every other path: the
  missing key shows in the printed line and not in the value returned.
\<close>

theorem missing_key_aborts:
  "falsy (api_key E) = (falsy (secrets_key E) \<and> falsy (getenv_key E)) \<and>
   (falsy (api_key E) \<longrightarrow>
      bulk_process_invoices E d =
        Inr \<lparr>returned = PyNone, after = d, printed = [Starting_bulk, Api_key_not_found]\<rparr>)"
  by (auto simp: bulk_without_key api_key_def)

text \<open>The inbox, run without a key: nothing is processed and nothing is written.\<close>

theorem missing_key_aborts_witness:
  "falsy (api_key office_without_key) \<and>
   bulk_process_invoices office_without_key inbox =
     Inr \<lparr>returned = PyNone, after = inbox, printed = [Starting_bulk, Api_key_not_found]\<rparr>"
  using missing_key_aborts [of office_without_key inbox] key_office(2)
  by simp

text \<open>
  C5 as stated fails in its return value: the run without a key and the run that
  appends a record return the same value, None, so the value returned indicates no
  configuration error.
\<close>

theorem no_indicator_returned_counterexample:
  "map_sum id returned (bulk_process_invoices office_without_key inbox) = Inr PyNone \<and>
   map_sum id returned (bulk_process_invoices office inbox) = Inr PyNone"
  by (simp add: run_inbox bulk_without_key key_office)

section \<open>What a run returns\<close>

text \<open>
  C8, as the code has it. Every run that returns, returns None. With a key and a readable
  ledger the run does return; the number of records appended is only printed, in the line
  that announces the records to save, and only when there is a record; the failures are
  printed one by one with their files and are not counted.
\<close>

theorem ingestion_returns_nothing:
  "(\<forall>run. bulk_process_invoices E d = Inr run \<longrightarrow> returned run = PyNone) \<and>
   (\<forall>P new_files staged.
      \<not> falsy (api_key E) \<and> get_processed_files (pd E) (log_file d) = Inr P \<and>
      new_files = filter (\<lambda>f. Str f \<notin> P) (glob_pdf (listing d)) \<and>
      staged = List.map_filter (\<lambda>f. fst (try_file E f)) new_files \<longrightarrow>
      (\<exists>run. bulk_process_invoices E d = Inr run \<and> returned run = PyNone \<and>
         printed run =
           [Starting_bulk, Found_processed (card P)] @
           concat (map (\<lambda>f. Processing f # snd (try_file E f)) new_files) @
           (if staged = [] then [No_new_files, Bulk_complete]
            else [Found_new (length staged), Appended, Bulk_complete])))"
proof -
  have "\<exists>run. bulk_process_invoices E d = Inr run \<and> returned run = PyNone \<and>
         printed run =
           [Starting_bulk, Found_processed (card P)] @
           concat (map (\<lambda>f. Processing f # snd (try_file E f)) new_files) @
           (if staged = [] then [No_new_files, Bulk_complete]
            else [Found_new (length staged), Appended, Bulk_complete])"
    if "\<not> falsy (api_key E) \<and> get_processed_files (pd E) (log_file d) = Inr P \<and>
      new_files = filter (\<lambda>f. Str f \<notin> P) (glob_pdf (listing d)) \<and>
      staged = List.map_filter (\<lambda>f. fst (try_file E f)) new_files"
    for P new_files staged
    using that bulk_with_key [of E d P new_files staged]
    by simp
  then show ?thesis
    using bulk_returns_none by blast
qed

text \<open>
  The inbox: one record is appended and three files fail; the run returns None and the
  count of one is in the printed lines.
\<close>

theorem ingestion_returns_nothing_witness:
  "map_sum id returned (bulk_process_invoices office inbox) = Inr PyNone \<and>
   map_sum id printed (bulk_process_invoices office inbox) =
     Inr ([Starting_bulk, Found_processed 0] @ failures_printed @
          [Processing ''a.pdf'', Staged ''a.pdf'', Found_new 1, Appended, Bulk_complete])"
  using ingestion_returns_nothing [of office inbox] run_inbox
  by simp

text \<open>
  C8 as stated fails: on the inbox one record is appended and three files fail, and the
  value returned is None, not the pair of the counts 1 and 3.
\<close>

theorem no_counts_returned_counterexample:
  "map_sum id returned (bulk_process_invoices office inbox) = Inr PyNone \<and>
   map_sum id returned (bulk_process_invoices office inbox) \<noteq> Inr (PyTuple [PyInt 1, PyInt 3])"
  by (simp add: run_inbox)

section \<open>A second run on the same directory\<close>




section \<open>A ledger without the column of source files\<close>

text \<open>
  C10. Let the ledger file exist and be read by pandas into a frame that has no column
  \<^verbatim>\<open>source_file\<close>, and let there be a key. The set of files already processed is empty.
  The run then processes every PDF file of the directory, whether or not the ledger has
  a line for it, and appends the record of every file that succeeds after the lines that
  the ledger has, without a header.
\<close>

theorem ledger_without_source_file_column:
  assumes readable: "read_csv (pd E) (log_file d) = Inr df"
    and no_column: "''source_file'' \<notin> set (columns df)"
    and key: "\<not> falsy (api_key E)"
    and staged: "staged = List.map_filter (\<lambda>f. fst (try_file E f)) (glob_pdf (listing d))"
  shows "get_processed_files (pd E) (log_file d) = Inr {} \<and>
         bulk_process_invoices E d =
           Inr \<lparr>returned = PyNone,
                after = (if staged = [] then d
                         else d\<lparr>log_file := to_csv_append staged (log_file d)\<rparr>),
                printed = [Starting_bulk, Found_processed 0] @
                          concat (map (\<lambda>f. Processing f # snd (try_file E f)) (glob_pdf (listing d))) @
                          (if staged = [] then [No_new_files, Bulk_complete]
                           else [Found_new (length staged), Appended, Bulk_complete])\<rparr> \<and>
         (\<exists>ls. log_file d = Lines ls \<and>
               to_csv_append staged (log_file d) =
                 Lines (ls @ map (csv_line (new_columns staged)) staged))"
proof -
  have none: "get_processed_files (pd E) (log_file d) = Inr {}"
    using readable no_column by (simp add: get_processed_files_def)
  have run: "bulk_process_invoices E d =
           Inr \<lparr>returned = PyNone,
                after = (if staged = [] then d
                         else d\<lparr>log_file := to_csv_append staged (log_file d)\<rparr>),
                printed = [Starting_bulk, Found_processed 0] @
                          concat (map (\<lambda>f. Processing f # snd (try_file E f)) (glob_pdf (listing d))) @
                          (if staged = [] then [No_new_files, Bulk_complete]
                           else [Found_new (length staged), Appended, Bulk_complete])\<rparr>"
    using bulk_with_key [OF key none refl refl] by (simp add: staged)
  have lines: "\<exists>ls. log_file d = Lines ls \<and>
               to_csv_append staged (log_file d) =
                 Lines (ls @ map (csv_line (new_columns staged)) staged)"
    using readable by (cases "log_file d") (simp_all add: read_csv_def to_csv_append_Lines)
  from none run lines show ?thesis by (intro conjI)
qed

text \<open>
  The inbox with a ledger whose header has the columns of the vendor, the amount and the
  date: the run appends the line of the good invoice, and the next run, on the ledger
  that now has this line, appends it again.
\<close>

theorem ledger_without_source_file_column_witness:
  "get_processed_files (pd office) (log_file inbox_foreign_ledger) = Inr {} \<and>
   bulk_process_invoices office inbox_foreign_ledger =
     Inr \<lparr>returned = PyNone,
          after = inbox\<lparr>log_file := Lines [foreign_header, acme_line]\<rparr>,
          printed = [Starting_bulk, Found_processed 0] @ failures_printed @
                    [Processing ''a.pdf'', Staged ''a.pdf'', Found_new 1, Appended, Bulk_complete]\<rparr> \<and>
   get_processed_files (pd office) (Lines [foreign_header, acme_line]) = Inr {} \<and>
   bulk_process_invoices office (inbox\<lparr>log_file := Lines [foreign_header, acme_line]\<rparr>) =
     Inr \<lparr>returned = PyNone,
          after = inbox\<lparr>log_file := Lines [foreign_header, acme_line, acme_line]\<rparr>,
          printed = [Starting_bulk, Found_processed 0] @ failures_printed @
                    [Processing ''a.pdf'', Staged ''a.pdf'', Found_new 1, Appended, Bulk_complete]\<rparr>"
proof -
  have no_column: "''source_file'' \<notin> set (columns \<lparr>columns = foreign_header, rows = rs\<rparr>)" for rs
    by (simp add: foreign_header_def)
  have first: "read_csv (pd office) (log_file inbox_foreign_ledger) =
      Inr \<lparr>columns = foreign_header,
           rows = replicate 0 (zip foreign_header (map (read_cell plain) acme_line))\<rparr>"
    using read_foreign [of 0] by (simp add: pd_office inbox_foreign_ledger_def inbox_def)
  have second: "read_csv (pd office) (log_file (inbox\<lparr>log_file := Lines [foreign_header, acme_line]\<rparr>)) =
      Inr \<lparr>columns = foreign_header,
           rows = replicate 1 (zip foreign_header (map (read_cell plain) acme_line))\<rparr>"
    using read_foreign [of 1] by (simp add: pd_office)
  show ?thesis
    using ledger_without_source_file_column [OF first no_column key_office(1) refl]
      ledger_without_source_file_column [OF second no_column key_office(1) refl]
    by (simp add: inbox_foreign_ledger_def glob_inbox try_files map_filter_simps append_acme
        failures_printed_def)
qed

end
